theory Spec2Isabelle
  imports Main
begin

unbundle bit_operations_syntax

section \<open>Data model\<close>

text \<open>
  The package under verification is \<^verbatim>\<open>internal/auth/auth.go\<close>: four functions
  (\<^verbatim>\<open>HashPassword\<close>, \<^verbatim>\<open>CheckPasswordHash\<close>, \<^verbatim>\<open>MakeJWT\<close>, \<^verbatim>\<open>ValidateJWT\<close>) that glue
  together three libraries (\<^verbatim>\<open>golang.org/x/crypto/bcrypt\<close>, \<^verbatim>\<open>github.com/golang-jwt/jwt/v5\<close>,
  \<^verbatim>\<open>github.com/google/uuid\<close>).  The four functions are translated line by line.
  The library functions they call are translated from the libraries' control flow; the
  primitives below them (hash functions, base64 and JSON codecs, the Blowfish key
  schedule) are parameters, collected in the records \<open>StdLib\<close> and \<open>BcryptPrims\<close>.

  A Go \<^verbatim>\<open>string\<close> and a Go \<^verbatim>\<open>[]byte\<close> are both sequences of bytes, and the conversions
  \<^verbatim>\<open>[]byte(s)\<close> and \<^verbatim>\<open>string(b)\<close> keep the bytes; both are \<open>char list\<close> here (a HOL
  \<open>char\<close> is one byte).  A \<^verbatim>\<open>time.Time\<close> is the instant in nanoseconds since the Unix
  epoch, a \<^verbatim>\<open>time.Duration\<close> a number of nanoseconds.  The clock readings
  (\<^verbatim>\<open>time.Now()\<close>) and the bytes read from the entropy source are explicit arguments.
\<close>

type_synonym bytes = string
type_synonym Time = int
type_synonym Duration = int

text \<open>\<^verbatim>\<open>uuid.UUID\<close> is \<^verbatim>\<open>[16]byte\<close>: a list of 16 bytes.\<close>

type_synonym UUID = "char list"

text \<open>
  Go's \<^verbatim>\<open>error\<close> values.  \<open>jwt_newError msg e more\<close> is the library's
  \<^verbatim>\<open>newError(msg, e, more...)\<close>, an error that wraps the sentinel \<open>e\<close> and the errors
  \<open>more\<close>; \<open>jwt_joinErrors\<close> is \<^verbatim>\<open>joinErrors(errs...)\<close>.
\<close>

datatype jwt_sentinel =
    ErrTokenMalformed
  | ErrTokenUnverifiable
  | ErrTokenSignatureInvalid
  | ErrTokenInvalidClaims
  | ErrTokenExpired
  | ErrTokenNotValidYet
  | ErrSignatureInvalid
  | ErrInvalidKeyType
  | NoneSignatureTypeDisallowedError

datatype error =
    errors_New string
  | jwt_sentinel_error jwt_sentinel
  | jwt_newError string jwt_sentinel "error list"
  | jwt_joinErrors "error list"
  | base64_CorruptInputError
  | json_UnmarshalError
  | uuid_invalidLengthError nat
  | uuid_invalidUrnPrefix string
  | bcrypt_ErrPasswordTooLong
  | bcrypt_ErrHashTooShort
  | bcrypt_ErrMismatchedHashAndPassword
  | bcrypt_InvalidHashPrefixError char
  | bcrypt_HashVersionTooNewError char
  | bcrypt_InvalidCostError int
  | strconv_NumError
  | blowfish_KeySizeError nat
  | io_EOF
  | io_ErrUnexpectedEOF

subsection \<open>Tokens\<close>

text \<open>
  \<^verbatim>\<open>jwt.RegisteredClaims\<close>.  A \<^verbatim>\<open>*NumericDate\<close> is a pointer: \<open>None\<close> is \<^verbatim>\<open>nil\<close>
  (the claim is absent).
\<close>

record RegisteredClaims =
  Issuer :: string
  Subject :: string
  Audience :: "string list"
  ExpiresAt :: "Time option"
  NotBefore :: "Time option"
  IssuedAt :: "Time option"
  ID :: string

text \<open>
  The token header is a \<^verbatim>\<open>map[string]interface{}\<close>.  The code only ever reads the
  entry \<^verbatim>\<open>"alg"\<close> through the type assertion \<^verbatim>\<open>.(string)\<close>, so a JSON value is either a
  string or something else.
\<close>

datatype jvalue = JString string | JNonString

type_synonym Header = "(string \<times> jvalue) list"

datatype crypto_Hash = SHA256 | SHA384 | SHA512

text \<open>The signing methods that \<^verbatim>\<open>jwt/v5\<close> registers, by their Go type.\<close>

datatype SigningMethod =
    SigningMethodHMAC crypto_Hash
  | SigningMethodRSA crypto_Hash
  | SigningMethodRSAPSS crypto_Hash
  | SigningMethodECDSA crypto_Hash
  | SigningMethodEd25519
  | signingMethodNone

record Token =
  Raw :: string
  Method :: SigningMethod
  Header :: Header
  Claims :: RegisteredClaims
  Signature :: bytes
  Valid :: bool

subsection \<open>Primitives taken as parameters\<close>

text \<open>
  The primitives of Go's standard library that the JWT library calls:
  \<^verbatim>\<open>crypto/sha256\<close> and \<^verbatim>\<open>crypto/sha512\<close> (one-shot digests),
  \<^verbatim>\<open>base64.RawURLEncoding\<close> (\<^verbatim>\<open>EncodeToString\<close>, \<^verbatim>\<open>DecodeString\<close>), and
  \<^verbatim>\<open>encoding/json\<close> at the two types the library uses it at.
\<close>

record StdLib =
  sha256_Sum :: "bytes \<Rightarrow> bytes"
  sha512_Sum384 :: "bytes \<Rightarrow> bytes"
  sha512_Sum512 :: "bytes \<Rightarrow> bytes"
  base64_Encode :: "bytes \<Rightarrow> string"
  base64_Decode :: "string \<Rightarrow> bytes option"
  json_Marshal_Header :: "Header \<Rightarrow> bytes"
  json_Unmarshal_Header :: "bytes \<Rightarrow> Header option"
  json_Marshal_Claims :: "RegisteredClaims \<Rightarrow> bytes"
  json_Unmarshal_Claims :: "bytes \<Rightarrow> RegisteredClaims option"

section \<open>Library: \<^verbatim>\<open>github.com/google/uuid\<close>\<close>

definition uuid_Nil :: UUID where
  "uuid_Nil = replicate 16 (CHR 0x00)"

text \<open>\<^verbatim>\<open>encoding/hex\<close>: two lower-case digits per byte.\<close>

definition hextable :: string where
  "hextable = ''0123456789abcdef''"

definition hex_byte :: "char \<Rightarrow> string" where
  "hex_byte v = [hextable ! ((of_char v :: nat) div 16), hextable ! ((of_char v :: nat) mod 16)]"

definition hex_Encode :: "bytes \<Rightarrow> string" where
  "hex_Encode src = concat (map hex_byte src)"

text \<open>
  \<^verbatim>\<open>UUID.String\<close> (through \<^verbatim>\<open>encodeHex\<close>): the form
  \<^verbatim>\<open>xxxxxxxx-xxxx-xxxx-xxxx-xxxxxxxxxxxx\<close>.
\<close>

definition uuid_String :: "UUID \<Rightarrow> string" where
  "uuid_String uuid =
     hex_Encode (take 4 uuid) @ ''-'' @
     hex_Encode (take 2 (drop 4 uuid)) @ ''-'' @
     hex_Encode (take 2 (drop 6 uuid)) @ ''-'' @
     hex_Encode (take 2 (drop 8 uuid)) @ ''-'' @
     hex_Encode (drop 10 uuid)"

text \<open>
  The table \<^verbatim>\<open>xvalues\<close> (255 marks a byte that is no hexadecimal digit) and
  \<^verbatim>\<open>xtob\<close>, which returns \<^verbatim>\<open>(b1 << 4) | b2\<close> on bytes and whether both digits were valid.
\<close>

definition xvalues :: "char \<Rightarrow> nat" where
  "xvalues c =
     (let n = (of_char c :: nat) in
      if 48 \<le> n \<and> n \<le> 57 then n - 48
      else if 65 \<le> n \<and> n \<le> 70 then n - 55
      else if 97 \<le> n \<and> n \<le> 102 then n - 87
      else 255)"

definition xtob :: "char \<Rightarrow> char \<Rightarrow> char \<times> bool" where
  "xtob x1 x2 =
     (let b1 = xvalues x1; b2 = xvalues x2 in
      (char_of (((b1 * 16) mod 256) OR b2), b1 \<noteq> 255 \<and> b2 \<noteq> 255))"

text \<open>
  The two loops of \<^verbatim>\<open>uuid.Parse\<close>: byte \<open>i\<close> of the result is read from the two
  characters at an offset of the string.  On a bad digit a loop returns the array as
  filled so far, together with the error.  The loop for the dashed forms stores a byte
  after it has checked it (\<open>parse_bytes\<close>); the loop for the 32-digit form stores it
  first (\<open>parse_raw\<close>).
\<close>

fun parse_bytes :: "string \<Rightarrow> nat list \<Rightarrow> nat \<Rightarrow> UUID \<Rightarrow> UUID \<times> error option" where
  "parse_bytes s [] i uuid = (uuid, None)"
| "parse_bytes s (x # xs) i uuid =
     (case xtob (s ! x) (s ! (x + 1)) of
        (v, ok) \<Rightarrow>
          if \<not> ok then (uuid, Some (errors_New ''invalid UUID format''))
          else parse_bytes s xs (i + 1) (uuid[i := v]))"

fun parse_raw :: "string \<Rightarrow> nat list \<Rightarrow> nat \<Rightarrow> UUID \<Rightarrow> UUID \<times> error option" where
  "parse_raw s [] i uuid = (uuid, None)"
| "parse_raw s (x # xs) i uuid =
     (case xtob (s ! x) (s ! (x + 1)) of
        (v, ok) \<Rightarrow>
          if \<not> ok then (uuid[i := v], Some (errors_New ''invalid UUID format''))
          else parse_raw s xs (i + 1) (uuid[i := v]))"

definition ascii_lower :: "char \<Rightarrow> char" where
  "ascii_lower c =
     (let n = (of_char c :: nat) in if 65 \<le> n \<and> n \<le> 90 then char_of (n + 32) else c)"

text \<open>
  \<^verbatim>\<open>uuid.Parse\<close>.  The string is sliced only after its length is known, so every index
  read below is in range.  \<^verbatim>\<open>strings.EqualFold\<close> against the ASCII text
  \<^verbatim>\<open>urn:uuid:\<close> on a nine-byte slice is equality up to ASCII case.
\<close>

definition uuid_Parse :: "string \<Rightarrow> UUID \<times> error option" where
  "uuid_Parse s =
     (let uuid = replicate 16 (CHR 0x00);
          dashed = (\<lambda>s.
            if s ! 8 \<noteq> CHR ''-'' \<or> s ! 13 \<noteq> CHR ''-'' \<or> s ! 18 \<noteq> CHR ''-'' \<or> s ! 23 \<noteq> CHR ''-''
            then (uuid, Some (errors_New ''invalid UUID format''))
            else parse_bytes s [0, 2, 4, 6, 9, 11, 14, 16, 19, 21, 24, 26, 28, 30, 32, 34] 0 uuid)
      in
      if length s = 36 then dashed s
      else if length s = 36 + 9 then
        (if map ascii_lower (take 9 s) \<noteq> ''urn:uuid:''
         then (uuid, Some (uuid_invalidUrnPrefix (take 9 s)))
         else dashed (drop 9 s))
      else if length s = 36 + 2 then dashed (drop 1 s)
      else if length s = 32 then
        parse_raw s [0, 2, 4, 6, 8, 10, 12, 14, 16, 18, 20, 22, 24, 26, 28, 30] 0 uuid
      else (uuid, Some (uuid_invalidLengthError (length s))))"

section \<open>Library: \<^verbatim>\<open>crypto/hmac\<close>\<close>

text \<open>
  \<^verbatim>\<open>copy(dst, src)\<close> into a slice \<open>dst\<close>: the first \<open>min (len dst) (len src)\<close> bytes
  are overwritten.
\<close>

definition copy :: "bytes \<Rightarrow> bytes \<Rightarrow> bytes" where
  "copy dst src = take (length dst) src @ drop (length src) dst"

definition xor_byte :: "nat \<Rightarrow> char \<Rightarrow> char" where
  "xor_byte k c = char_of ((of_char c :: nat) XOR k)"

text \<open>
  \<^verbatim>\<open>hmac.New(h, key)\<close> followed by \<^verbatim>\<open>Write(msg)\<close> and \<^verbatim>\<open>Sum(nil)\<close>: a key longer than
  the hash's block size is hashed first; the key is then copied into two zeroed blocks,
  which are xor-ed with \<^verbatim>\<open>0x36\<close> and \<^verbatim>\<open>0x5c\<close>.
\<close>

definition hmac_Sum :: "(bytes \<Rightarrow> bytes) \<Rightarrow> nat \<Rightarrow> bytes \<Rightarrow> bytes \<Rightarrow> bytes" where
  "hmac_Sum h blocksize key msg =
     (let key' = (if length key > blocksize then h key else key);
          ipad = map (xor_byte 0x36) (copy (replicate blocksize (CHR 0x00)) key');
          opad = map (xor_byte 0x5c) (copy (replicate blocksize (CHR 0x00)) key')
      in h (opad @ h (ipad @ msg)))"

fun hash_New :: "StdLib \<Rightarrow> crypto_Hash \<Rightarrow> bytes \<Rightarrow> bytes" where
  "hash_New L SHA256 = sha256_Sum L"
| "hash_New L SHA384 = sha512_Sum384 L"
| "hash_New L SHA512 = sha512_Sum512 L"

fun hash_BlockSize :: "crypto_Hash \<Rightarrow> nat" where
  "hash_BlockSize SHA256 = 64"
| "hash_BlockSize SHA384 = 128"
| "hash_BlockSize SHA512 = 128"

section \<open>Library: \<^verbatim>\<open>github.com/golang-jwt/jwt/v5\<close>\<close>

text \<open>
  \<^verbatim>\<open>GetSigningMethod\<close>: the methods the package registers in its \<^verbatim>\<open>init\<close> functions;
  \<open>None\<close> is the \<^verbatim>\<open>nil\<close> it returns for any other name.
\<close>

definition GetSigningMethod :: "string \<Rightarrow> SigningMethod option" where
  "GetSigningMethod alg =
     (if alg = ''HS256'' then Some (SigningMethodHMAC SHA256)
      else if alg = ''HS384'' then Some (SigningMethodHMAC SHA384)
      else if alg = ''HS512'' then Some (SigningMethodHMAC SHA512)
      else if alg = ''RS256'' then Some (SigningMethodRSA SHA256)
      else if alg = ''RS384'' then Some (SigningMethodRSA SHA384)
      else if alg = ''RS512'' then Some (SigningMethodRSA SHA512)
      else if alg = ''PS256'' then Some (SigningMethodRSAPSS SHA256)
      else if alg = ''PS384'' then Some (SigningMethodRSAPSS SHA384)
      else if alg = ''PS512'' then Some (SigningMethodRSAPSS SHA512)
      else if alg = ''ES256'' then Some (SigningMethodECDSA SHA256)
      else if alg = ''ES384'' then Some (SigningMethodECDSA SHA384)
      else if alg = ''ES512'' then Some (SigningMethodECDSA SHA512)
      else if alg = ''EdDSA'' then Some SigningMethodEd25519
      else if alg = ''none'' then Some signingMethodNone
      else None)"

fun hash_suffix :: "crypto_Hash \<Rightarrow> string" where
  "hash_suffix SHA256 = ''256''"
| "hash_suffix SHA384 = ''384''"
| "hash_suffix SHA512 = ''512''"

fun Alg :: "SigningMethod \<Rightarrow> string" where
  "Alg (SigningMethodHMAC h) = ''HS'' @ hash_suffix h"
| "Alg (SigningMethodRSA h) = ''RS'' @ hash_suffix h"
| "Alg (SigningMethodRSAPSS h) = ''PS'' @ hash_suffix h"
| "Alg (SigningMethodECDSA h) = ''ES'' @ hash_suffix h"
| "Alg SigningMethodEd25519 = ''EdDSA''"
| "Alg signingMethodNone = ''none''"

text \<open>
  \<^verbatim>\<open>NewNumericDate(t)\<close> is \<^verbatim>\<open>t.Truncate(TimePrecision)\<close>, and \<^verbatim>\<open>TimePrecision\<close> is
  \<^verbatim>\<open>time.Second\<close> unless a program assigns it (this one does not): the instant rounded
  down to a whole second.
\<close>

definition TimePrecision :: Duration where
  "TimePrecision = 1000000000"

definition NewNumericDate :: "Time \<Rightarrow> Time" where
  "NewNumericDate t = t - t mod TimePrecision"

definition NewWithClaims :: "SigningMethod \<Rightarrow> RegisteredClaims \<Rightarrow> Token" where
  "NewWithClaims method claims =
     \<lparr>Raw = [], Method = method,
      Header = [(''typ'', JString ''JWT''), (''alg'', JString (Alg method))],
      Claims = claims, Signature = [], Valid = False\<rparr>"

text \<open>
  \<^verbatim>\<open>SigningMethod.Sign\<close> and \<^verbatim>\<open>SigningMethod.Verify\<close> for a key of type \<^verbatim>\<open>[]byte\<close>,
  the only type of key this program passes.  The HMAC methods accept it; the asymmetric
  methods want a key of their own type and \<^verbatim>\<open>none\<close> wants the constant
  \<^verbatim>\<open>UnsafeAllowNoneSignatureType\<close>.  \<^verbatim>\<open>hmac.Equal\<close> is equality of the two byte
  sequences.
\<close>

fun Sign :: "StdLib \<Rightarrow> SigningMethod \<Rightarrow> string \<Rightarrow> bytes \<Rightarrow> error + bytes" where
  "Sign L (SigningMethodHMAC h) signingString key =
     Inr (hmac_Sum (hash_New L h) (hash_BlockSize h) key signingString)"
| "Sign L signingMethodNone signingString key =
     Inl (jwt_sentinel_error NoneSignatureTypeDisallowedError)"
| "Sign L m signingString key = Inl (jwt_sentinel_error ErrInvalidKeyType)"

fun Verify :: "StdLib \<Rightarrow> SigningMethod \<Rightarrow> string \<Rightarrow> bytes \<Rightarrow> bytes \<Rightarrow> error option" where
  "Verify L (SigningMethodHMAC h) signingString sig key =
     (if sig \<noteq> hmac_Sum (hash_New L h) (hash_BlockSize h) key signingString
      then Some (jwt_sentinel_error ErrSignatureInvalid)
      else None)"
| "Verify L signingMethodNone signingString sig key =
     Some (jwt_sentinel_error NoneSignatureTypeDisallowedError)"
| "Verify L m signingString sig key = Some (jwt_sentinel_error ErrInvalidKeyType)"

text \<open>\<^verbatim>\<open>Token.SigningString\<close> and \<^verbatim>\<open>Token.SignedString\<close>.\<close>

definition SigningString :: "StdLib \<Rightarrow> Token \<Rightarrow> string" where
  "SigningString L t =
     base64_Encode L (json_Marshal_Header L (Header t)) @ ''.'' @
     base64_Encode L (json_Marshal_Claims L (Claims t))"

definition SignedString :: "StdLib \<Rightarrow> Token \<Rightarrow> bytes \<Rightarrow> string \<times> error option" where
  "SignedString L t key =
     (let sstr = SigningString L t in
      case Sign L (Method t) sstr key of
        Inl err \<Rightarrow> ([], Some err)
      | Inr sig \<Rightarrow> (sstr @ ''.'' @ base64_Encode L sig, None))"

text \<open>\<^verbatim>\<open>strings.Split(s, ".")\<close>: the pieces between the separators, in order.\<close>

fun strings_Split :: "char \<Rightarrow> string \<Rightarrow> string list" where
  "strings_Split sep [] = [[]]"
| "strings_Split sep (c # cs) =
     (if c = sep then [] # strings_Split sep cs
      else (case strings_Split sep cs of
              [] \<Rightarrow> [[c]]
            | p # ps \<Rightarrow> (c # p) # ps))"

text \<open>
  \<^verbatim>\<open>Parser.ParseUnverified\<close> for a claims argument of type \<^verbatim>\<open>*RegisteredClaims\<close>:
  split into three segments, decode the header, decode the claims, look the signing
  method up.  On success it returns the token and the three segments.
\<close>

definition ParseUnverified ::
  "StdLib \<Rightarrow> string \<Rightarrow> error + (Token \<times> string \<times> string \<times> string)" where
  "ParseUnverified L tokenString =
     (case strings_Split (CHR ''.'') tokenString of
        [p0, p1, p2] \<Rightarrow>
          (case base64_Decode L p0 of
             None \<Rightarrow> Inl (jwt_newError ''could not base64 decode header'' ErrTokenMalformed
                            [base64_CorruptInputError])
           | Some headerBytes \<Rightarrow>
               (case json_Unmarshal_Header L headerBytes of
                  None \<Rightarrow> Inl (jwt_newError ''could not JSON decode header'' ErrTokenMalformed
                                 [json_UnmarshalError])
                | Some header \<Rightarrow>
                    (case base64_Decode L p1 of
                       None \<Rightarrow> Inl (jwt_newError ''could not base64 decode claim'' ErrTokenMalformed
                                      [base64_CorruptInputError])
                     | Some claimBytes \<Rightarrow>
                         (case json_Unmarshal_Claims L claimBytes of
                            None \<Rightarrow> Inl (jwt_newError ''could not JSON decode claim''
                                           ErrTokenMalformed [json_UnmarshalError])
                          | Some claims \<Rightarrow>
                              (case map_of header ''alg'' of
                                 Some (JString alg) \<Rightarrow>
                                   (case GetSigningMethod alg of
                                      None \<Rightarrow> Inl (jwt_newError ''signing method (alg) is unavailable''
                                                     ErrTokenUnverifiable [])
                                    | Some method \<Rightarrow>
                                        Inr (\<lparr>Raw = tokenString, Method = method, Header = header,
                                              Claims = claims, Signature = [], Valid = False\<rparr>,
                                             p0, p1, p2))
                               | _ \<Rightarrow> Inl (jwt_newError ''signing method (alg) is unspecified''
                                            ErrTokenUnverifiable []))))))
      | _ \<Rightarrow> Inl (jwt_newError ''token contains an invalid number of segments''
                   ErrTokenMalformed []))"

text \<open>
  \<^verbatim>\<open>Validator.Validate\<close> with the default validator (no leeway, no expected issuer,
  subject or audience, issued-at not verified), at the clock reading \<open>now\<close>: an absent
  \<^verbatim>\<open>exp\<close> or \<^verbatim>\<open>nbf\<close> claim passes, \<^verbatim>\<open>exp\<close> passes when \<^verbatim>\<open>now.Before(exp)\<close>, \<^verbatim>\<open>nbf\<close> when
  \<^verbatim>\<open>!now.Before(nbf)\<close>.  The failures are collected and joined.
\<close>

definition verifyExpiresAt :: "RegisteredClaims \<Rightarrow> Time \<Rightarrow> error option" where
  "verifyExpiresAt claims cmp =
     (case ExpiresAt claims of
        None \<Rightarrow> None
      | Some exp \<Rightarrow> if cmp < exp then None else Some (jwt_sentinel_error ErrTokenExpired))"

definition verifyNotBefore :: "RegisteredClaims \<Rightarrow> Time \<Rightarrow> error option" where
  "verifyNotBefore claims cmp =
     (case NotBefore claims of
        None \<Rightarrow> None
      | Some nbf \<Rightarrow> if \<not> cmp < nbf then None else Some (jwt_sentinel_error ErrTokenNotValidYet))"

definition Validate :: "RegisteredClaims \<Rightarrow> Time \<Rightarrow> error option" where
  "Validate claims now =
     (let errs = (case verifyExpiresAt claims now of None \<Rightarrow> [] | Some err \<Rightarrow> [err]) @
                 (case verifyNotBefore claims now of None \<Rightarrow> [] | Some err \<Rightarrow> [err])
      in if errs = [] then None else Some (jwt_joinErrors errs))"

text \<open>
  \<^verbatim>\<open>Parser.ParseWithClaims\<close> with the default parser: parse, decode the signature
  segment, ask the key function for the key, verify the signature with the token's own
  method, validate the claims.  The token is marked valid only at the end.  The clock is
  read by the validator: \<open>now\<close> is that reading.  (Releases before v5.2 ask the key
  function first and decode the signature segment second; the two orders differ only on
  a token whose signature segment does not decode, and the theorems below are about
  tokens on which it does.)
\<close>

definition ParseWithClaims ::
  "StdLib \<Rightarrow> Time \<Rightarrow> string \<Rightarrow> (Token \<Rightarrow> error + bytes) \<Rightarrow> error + Token" where
  "ParseWithClaims L now tokenString keyFunc =
     (case ParseUnverified L tokenString of
        Inl err \<Rightarrow> Inl err
      | Inr (token, p0, p1, p2) \<Rightarrow>
          (case base64_Decode L p2 of
             None \<Rightarrow> Inl (jwt_newError ''could not base64 decode signature'' ErrTokenMalformed
                            [base64_CorruptInputError])
           | Some sig \<Rightarrow>
               (let token = token\<lparr>Signature := sig\<rparr>;
                    text = p0 @ ''.'' @ p1
                in case keyFunc token of
                     Inl err \<Rightarrow> Inl (jwt_newError ''error while executing keyfunc''
                                      ErrTokenUnverifiable [err])
                   | Inr key \<Rightarrow>
                       (case Verify L (Method token) text sig key of
                          Some err \<Rightarrow> Inl (jwt_newError [] ErrTokenSignatureInvalid [err])
                        | None \<Rightarrow>
                            (case Validate (Claims token) now of
                               Some err \<Rightarrow> Inl (jwt_newError [] ErrTokenInvalidClaims [err])
                             | None \<Rightarrow> Inr (token\<lparr>Valid := True\<rparr>))))))"

section \<open>Library: \<^verbatim>\<open>golang.org/x/crypto/bcrypt\<close>\<close>

text \<open>
  The primitives below bcrypt: its own base64 codec (\<^verbatim>\<open>base64Encode\<close>, \<^verbatim>\<open>base64Decode\<close>,
  a non-standard alphabet with the padding stripped) and the expensive part,
  \<open>blowfish_crypt ckey cost csalt\<close>: the salted Blowfish key schedule repeated
  \<^verbatim>\<open>1 << cost\<close> times, followed by the 64-fold encryption of \<^verbatim>\<open>magicCipherData\<close>.
\<close>

record BcryptPrims =
  bc_base64Encode :: "bytes \<Rightarrow> bytes"
  bc_base64Decode :: "bytes \<Rightarrow> bytes option"
  blowfish_crypt :: "bytes \<Rightarrow> nat \<Rightarrow> bytes \<Rightarrow> bytes"

definition MinCost :: int where "MinCost = 4"
definition MaxCost :: int where "MaxCost = 31"
definition DefaultCost :: int where "DefaultCost = 10"
definition majorVersion :: char where "majorVersion = CHR ''2''"
definition minorVersion :: char where "minorVersion = CHR ''a''"
definition maxSaltSize :: nat where "maxSaltSize = 16"
definition maxCryptedHashSize :: nat where "maxCryptedHashSize = 23"
definition encodedSaltSize :: nat where "encodedSaltSize = 22"
definition encodedHashSize :: nat where "encodedHashSize = 31"
definition minHashSize :: nat where "minHashSize = 59"

record hashed =
  hash :: bytes
  salt :: bytes
  cost :: int
  major :: char
  minor :: char

definition checkCost :: "int \<Rightarrow> error option" where
  "checkCost c = (if c < MinCost \<or> c > MaxCost then Some (bcrypt_InvalidCostError c) else None)"

text \<open>
  \<^verbatim>\<open>bcrypt(password, cost, salt)\<close> with \<^verbatim>\<open>expensiveBlowfishSetup\<close> inlined: decode the
  salt, append the trailing zero byte to the key, set the cipher up
  (\<^verbatim>\<open>blowfish.NewSaltedCipher\<close> rejects an empty key and, for an empty salt, falls back to
  \<^verbatim>\<open>NewCipher\<close>, which also rejects a key of more than 56 bytes), encrypt, and encode
  the first 23 bytes.
\<close>

definition bcrypt :: "BcryptPrims \<Rightarrow> bytes \<Rightarrow> int \<Rightarrow> bytes \<Rightarrow> error + bytes" where
  "bcrypt B password c s =
     (case bc_base64Decode B s of
        None \<Rightarrow> Inl base64_CorruptInputError
      | Some csalt \<Rightarrow>
          (let ckey = password @ [CHR 0x00];
               k = length ckey
           in if (if csalt = [] then k < 1 \<or> k > 56 else k < 1)
              then Inl (blowfish_KeySizeError k)
              else Inr (bc_base64Encode B
                          (take maxCryptedHashSize (blowfish_crypt B ckey (nat c) csalt)))))"

text \<open>
  \<^verbatim>\<open>io.ReadFull(rand.Reader, buf)\<close> for a buffer of \<open>n\<close> bytes, where \<open>rnd\<close> is
  what the entropy source can deliver: fewer than \<open>n\<close> bytes is a failure.
\<close>

definition io_ReadFull :: "bytes \<Rightarrow> nat \<Rightarrow> error + bytes" where
  "io_ReadFull rnd n =
     (if length rnd < n then Inl (if rnd = [] then io_EOF else io_ErrUnexpectedEOF)
      else Inr (take n rnd))"

definition newFromPassword :: "BcryptPrims \<Rightarrow> bytes \<Rightarrow> bytes \<Rightarrow> int \<Rightarrow> error + hashed" where
  "newFromPassword B rnd password c0 =
     (let c = (if c0 < MinCost then DefaultCost else c0) in
      case checkCost c of
        Some err \<Rightarrow> Inl err
      | None \<Rightarrow>
          (case io_ReadFull rnd maxSaltSize of
             Inl err \<Rightarrow> Inl err
           | Inr unencodedSalt \<Rightarrow>
               (let s = bc_base64Encode B unencodedSalt in
                case bcrypt B password c s of
                  Inl err \<Rightarrow> Inl err
                | Inr h \<Rightarrow>
                    Inr \<lparr>hash = h, salt = s, cost = c,
                         major = majorVersion, minor = minorVersion\<rparr>)))"

text \<open>Decimal digits, and \<^verbatim>\<open>fmt.Sprintf("%02d", i)\<close>.\<close>

fun decimal :: "nat \<Rightarrow> string" where
  "decimal n =
     (if n < 10 then [char_of (48 + n)] else decimal (n div 10) @ [char_of (48 + n mod 10)])"

declare decimal.simps [simp del]

definition Sprintf_02d :: "int \<Rightarrow> string" where
  "Sprintf_02d i =
     (if i < 0 then CHR ''-'' # decimal (nat (- i))
      else (let d = decimal (nat i) in replicate (2 - length d) (CHR ''0'') @ d))"

text \<open>\<^verbatim>\<open>copy(arr[n:], src)\<close> on an array \<open>arr\<close>.\<close>

definition copy_at :: "bytes \<Rightarrow> nat \<Rightarrow> bytes \<Rightarrow> bytes" where
  "copy_at arr n src = take n arr @ copy (drop n arr) src"

text \<open>\<^verbatim>\<open>(*hashed).Hash\<close>: the 60-byte array is filled from left to right.\<close>

definition Hash :: "hashed \<Rightarrow> bytes" where
  "Hash p =
     (let arr = replicate 60 (CHR 0x00);
          arr = arr[0 := CHR ''$''];
          arr = arr[1 := major p];
          n = 2;
          (arr, n) = (if minor p \<noteq> CHR 0x00 then (arr[2 := minor p], 3) else (arr, n));
          arr = arr[n := CHR ''$''];
          n = n + 1;
          arr = copy_at arr n (Sprintf_02d (cost p));
          n = n + 2;
          arr = arr[n := CHR ''$''];
          n = n + 1;
          arr = copy_at arr n (salt p);
          n = n + encodedSaltSize;
          arr = copy_at arr n (hash p);
          n = n + encodedHashSize
      in take n arr)"

text \<open>
  \<^verbatim>\<open>strconv.Atoi\<close> on a short string (its fast path; bcrypt calls it on two bytes):
  an optional sign, then decimal digits only.
\<close>

fun atoi_digits :: "int \<Rightarrow> string \<Rightarrow> int option" where
  "atoi_digits n [] = Some n"
| "atoi_digits n (ch # s) =
     (let d = (of_char ch :: nat) in
      if d < 48 \<or> d > 57 then None else atoi_digits (n * 10 + int (d - 48)) s)"

definition strconv_Atoi :: "string \<Rightarrow> int option" where
  "strconv_Atoi s0 =
     (case s0 of
        [] \<Rightarrow> None
      | c # s \<Rightarrow>
          if c = CHR ''-'' \<or> c = CHR ''+'' then
            (if s = [] then None
             else map_option (\<lambda>n. if c = CHR ''-'' then - n else n) (atoi_digits 0 s))
          else atoi_digits 0 s0)"

text \<open>
  \<^verbatim>\<open>newFromHash\<close> with \<^verbatim>\<open>decodeVersion\<close> and \<^verbatim>\<open>decodeCost\<close> inlined.  All indices
  are below the minimal length that was checked first.
\<close>

definition newFromHash :: "bytes \<Rightarrow> error + hashed" where
  "newFromHash hashedSecret =
     (if length hashedSecret < minHashSize then Inl bcrypt_ErrHashTooShort
      else if hashedSecret ! 0 \<noteq> CHR ''$'' then Inl (bcrypt_InvalidHashPrefixError (hashedSecret ! 0))
      else if (of_char (hashedSecret ! 1) :: nat) > of_char majorVersion
        then Inl (bcrypt_HashVersionTooNewError (hashedSecret ! 1))
      else
        (let mj = hashedSecret ! 1;
             (mn, n) = (if hashedSecret ! 2 \<noteq> CHR ''$'' then (hashedSecret ! 2, 4)
                        else (CHR 0x00, 3));
             hashedSecret = drop n hashedSecret
         in case strconv_Atoi (take 2 hashedSecret) of
              None \<Rightarrow> Inl strconv_NumError
            | Some c \<Rightarrow>
                (case checkCost c of
                   Some err \<Rightarrow> Inl err
                 | None \<Rightarrow>
                     (let hashedSecret = drop 3 hashedSecret;
                          s = take encodedSaltSize hashedSecret;
                          hashedSecret = drop encodedSaltSize hashedSecret
                      in Inr \<lparr>hash = hashedSecret, salt = s, cost = c,
                              major = mj, minor = mn\<rparr>))))"

text \<open>
  \<^verbatim>\<open>GenerateFromPassword\<close> and \<^verbatim>\<open>CompareHashAndPassword\<close>.  The first begins with
  \<^verbatim>\<open>if len(password) > 72 { return nil, ErrPasswordTooLong }\<close> (in the releases of
  \<^verbatim>\<open>golang.org/x/crypto\<close> since the end of 2022; older ones ignored the bytes after the
  72nd).  \<^verbatim>\<open>subtle.ConstantTimeCompare(x, y) == 1\<close> is equality of the byte sequences.
\<close>

definition GenerateFromPassword :: "BcryptPrims \<Rightarrow> bytes \<Rightarrow> bytes \<Rightarrow> int \<Rightarrow> error + bytes" where
  "GenerateFromPassword B rnd password c =
     (if length password > 72 then Inl bcrypt_ErrPasswordTooLong
      else case newFromPassword B rnd password c of
             Inl err \<Rightarrow> Inl err
           | Inr p \<Rightarrow> Inr (Hash p))"

definition CompareHashAndPassword :: "BcryptPrims \<Rightarrow> bytes \<Rightarrow> bytes \<Rightarrow> error option" where
  "CompareHashAndPassword B hashedPassword password =
     (case newFromHash hashedPassword of
        Inl err \<Rightarrow> Some err
      | Inr p \<Rightarrow>
          (case bcrypt B password (cost p) (salt p) of
             Inl err \<Rightarrow> Some err
           | Inr otherHash \<Rightarrow>
               (let otherP = \<lparr>hash = otherHash, salt = salt p, cost = cost p,
                              major = major p, minor = minor p\<rparr>
                in if Hash p = Hash otherP then None
                   else Some bcrypt_ErrMismatchedHashAndPassword)))"

section \<open>The package \<^verbatim>\<open>internal/auth\<close>\<close>

text \<open>
  \<^verbatim>\<open>HashPassword\<close> and \<^verbatim>\<open>CheckPasswordHash\<close>.  \<open>rnd\<close> is what the entropy source
  delivers to this call.
\<close>

definition HashPassword :: "BcryptPrims \<Rightarrow> bytes \<Rightarrow> string \<Rightarrow> string \<times> error option" where
  "HashPassword B rnd password =
     (case GenerateFromPassword B rnd password DefaultCost of
        Inl err \<Rightarrow> ([], Some err)
      | Inr h \<Rightarrow> (h, None))"

definition CheckPasswordHash :: "BcryptPrims \<Rightarrow> string \<Rightarrow> string \<Rightarrow> error option" where
  "CheckPasswordHash B h password = CompareHashAndPassword B h password"

text \<open>
  \<^verbatim>\<open>MakeJWT\<close>.  The source reads the clock twice, once for \<^verbatim>\<open>IssuedAt\<close> and once for
  \<^verbatim>\<open>ExpiresAt\<close>: \<open>now1\<close> and \<open>now2\<close> are the two readings, in that order.
\<close>

definition MakeJWT ::
  "StdLib \<Rightarrow> Time \<Rightarrow> Time \<Rightarrow> UUID \<Rightarrow> string \<Rightarrow> Duration \<Rightarrow> string \<times> error option" where
  "MakeJWT L now1 now2 userID tokenSecret expiresIn =
     (let claims = \<lparr>Issuer = ''chirpy'', Subject = uuid_String userID, Audience = [],
                     ExpiresAt = Some (NewNumericDate (now2 + expiresIn)),
                     NotBefore = None,
                     IssuedAt = Some (NewNumericDate now1),
                     ID = []\<rparr>;
          token = NewWithClaims (SigningMethodHMAC SHA256) claims
      in case SignedString L token tokenSecret of
           (signedToken, Some err) \<Rightarrow> ([], Some err)
         | (signedToken, None) \<Rightarrow> (signedToken, None))"

text \<open>The key function that \<^verbatim>\<open>ValidateJWT\<close> passes to the parser.\<close>

definition keyFunc :: "string \<Rightarrow> Token \<Rightarrow> error + bytes" where
  "keyFunc tokenSecret token =
     (case Method token of
        SigningMethodHMAC h \<Rightarrow> Inr tokenSecret
      | _ \<Rightarrow> Inl (errors_New ''unexpected signing method''))"

text \<open>
  \<^verbatim>\<open>ValidateJWT\<close>.  The result is Go's pair \<^verbatim>\<open>(uuid.UUID, error)\<close>.  The type assertion
  \<^verbatim>\<open>token.Claims.(*jwt.RegisteredClaims)\<close> always holds, since the parser stores the
  claims value it was given.
\<close>

definition ValidateJWT :: "StdLib \<Rightarrow> Time \<Rightarrow> string \<Rightarrow> string \<Rightarrow> UUID \<times> error option" where
  "ValidateJWT L now tokenString tokenSecret =
     (case ParseWithClaims L now tokenString (keyFunc tokenSecret) of
        Inl err \<Rightarrow> (uuid_Nil, Some err)
      | Inr token \<Rightarrow>
          (let claims = Claims token; ok = True in
           if \<not> ok \<or> \<not> Valid token then (uuid_Nil, Some (errors_New ''invalid token''))
           else (case uuid_Parse (Subject claims) of
                   (userID, Some err) \<Rightarrow> (uuid_Nil, Some (errors_New ''invalid user ID in token''))
                 | (userID, None) \<Rightarrow> (userID, None))))"

section \<open>A reference instance of the primitives\<close>

text \<open>
  The theorems below hold for every choice of the primitives.  To evaluate the model on
  concrete inputs, the primitives are instantiated with small executable stand-ins: an
  escaping codec in place of base64url (its output never contains a dot), a
  field-by-field serialisation in place of JSON, the identity in place of the SHA-2
  digests (it has no collisions, so tags under different padded keys differ), and a
  checksum in place of the Blowfish encryption.
\<close>

fun escape :: "char \<Rightarrow> string \<Rightarrow> string" where
  "escape sep [] = []"
| "escape sep (c # cs) =
     (if c = sep then ''~:'' else if c = CHR ''~'' then ''~~'' else [c]) @ escape sep cs"

fun unescape :: "char \<Rightarrow> string \<Rightarrow> string option" where
  "unescape sep [] = Some []"
| "unescape sep (c # cs) =
     (if c = sep then None
      else if c = CHR ''~'' then
        (case cs of
           [] \<Rightarrow> None
         | d # ds \<Rightarrow>
             if d = CHR '':'' then map_option (Cons sep) (unescape sep ds)
             else if d = CHR ''~'' then map_option (Cons (CHR ''~'')) (unescape sep ds)
             else None)
      else map_option (Cons c) (unescape sep cs))"

definition put_fields :: "string list \<Rightarrow> string" where
  "put_fields fs = concat (map (\<lambda>f. escape (CHR '';'') f @ '';'') fs)"

definition get_fields :: "string \<Rightarrow> string list option" where
  "get_fields s =
     (let ps = strings_Split (CHR '';'') s in
      if last ps \<noteq> [] then None else those (map (unescape (CHR '';'')) (butlast ps)))"

fun bits_of :: "nat \<Rightarrow> string" where
  "bits_of n = (if n = 0 then [] else (if odd n then CHR ''1'' else CHR ''0'') # bits_of (n div 2))"

declare bits_of.simps [simp del]

fun of_bits :: "string \<Rightarrow> nat option" where
  "of_bits [] = Some 0"
| "of_bits (c # cs) =
     (if c = CHR ''1'' then map_option (\<lambda>n. 1 + 2 * n) (of_bits cs)
      else if c = CHR ''0'' then map_option (\<lambda>n. 2 * n) (of_bits cs)
      else None)"

definition put_time :: "Time option \<Rightarrow> string" where
  "put_time t =
     (case t of
        None \<Rightarrow> []
      | Some i \<Rightarrow> (if i < 0 then CHR ''-'' else CHR ''+'') # bits_of (nat \<bar>i\<bar>))"

definition get_time :: "string \<Rightarrow> Time option option" where
  "get_time s =
     (case s of
        [] \<Rightarrow> Some None
      | c # cs \<Rightarrow>
          if c = CHR ''+'' then map_option (\<lambda>n. Some (int n)) (of_bits cs)
          else if c = CHR ''-'' then map_option (\<lambda>n. Some (- int n)) (of_bits cs)
          else None)"

definition ref_Marshal_Claims :: "RegisteredClaims \<Rightarrow> bytes" where
  "ref_Marshal_Claims c =
     put_fields ([Issuer c, Subject c, put_time (ExpiresAt c), put_time (NotBefore c),
                  put_time (IssuedAt c), ID c] @ Audience c)"

definition ref_Unmarshal_Claims :: "bytes \<Rightarrow> RegisteredClaims option" where
  "ref_Unmarshal_Claims b =
     (case get_fields b of
        Some (iss # sub # exp # nbf # iat # jti # aud) \<Rightarrow>
          (case (get_time exp, get_time nbf, get_time iat) of
             (Some e, Some n, Some i) \<Rightarrow>
               Some \<lparr>Issuer = iss, Subject = sub, Audience = aud, ExpiresAt = e,
                     NotBefore = n, IssuedAt = i, ID = jti\<rparr>
           | _ \<Rightarrow> None)
      | _ \<Rightarrow> None)"

fun put_header :: "Header \<Rightarrow> string list" where
  "put_header [] = []"
| "put_header ((k, v) # h) =
     k # (case v of JString s \<Rightarrow> CHR ''S'' # s | JNonString \<Rightarrow> ''N'') # put_header h"

fun get_header :: "string list \<Rightarrow> Header option" where
  "get_header [] = Some []"
| "get_header [k] = None"
| "get_header (k # v # fs) =
     (if v = ''N'' then map_option (Cons (k, JNonString)) (get_header fs)
      else if take 1 v = ''S'' then map_option (Cons (k, JString (drop 1 v))) (get_header fs)
      else None)"

definition ref_Marshal_Header :: "Header \<Rightarrow> bytes" where
  "ref_Marshal_Header h = put_fields (put_header h)"

definition ref_Unmarshal_Header :: "bytes \<Rightarrow> Header option" where
  "ref_Unmarshal_Header b = (case get_fields b of None \<Rightarrow> None | Some fs \<Rightarrow> get_header fs)"

definition checksum :: "nat \<Rightarrow> bytes \<Rightarrow> char" where
  "checksum seed b = char_of (seed + sum_list (map (\<lambda>c. (of_char c :: nat)) b))"

definition ref_digest :: "bytes \<Rightarrow> bytes" where
  "ref_digest b = b"

definition ref_lib :: StdLib where
  "ref_lib =
     \<lparr>sha256_Sum = ref_digest, sha512_Sum384 = ref_digest, sha512_Sum512 = ref_digest,
      base64_Encode = escape (CHR ''.''), base64_Decode = unescape (CHR ''.''),
      json_Marshal_Header = ref_Marshal_Header, json_Unmarshal_Header = ref_Unmarshal_Header,
      json_Marshal_Claims = ref_Marshal_Claims, json_Unmarshal_Claims = ref_Unmarshal_Claims\<rparr>"

definition ref_bcrypt :: BcryptPrims where
  "ref_bcrypt =
     \<lparr>bc_base64Encode = (\<lambda>s. s @ replicate ((4 * length s + 2) div 3 - length s) (CHR ''.'')),
      bc_base64Decode = (\<lambda>t. let n = 3 * length t div 4 in
                           if drop n t = replicate (length t - n) (CHR ''.'') then Some (take n t)
                           else None),
      blowfish_crypt = (\<lambda>ckey c csalt. replicate 24 (checksum c (ckey @ csalt)))\<rparr>"

section \<open>Vocabulary of the specification\<close>

text \<open>
  The token value that \<^verbatim>\<open>MakeJWT\<close> builds before it signs (the claims literal and
  \<^verbatim>\<open>jwt.NewWithClaims\<close>), as a function of the two clock readings.
\<close>

definition issued_token :: "Time \<Rightarrow> Time \<Rightarrow> UUID \<Rightarrow> Duration \<Rightarrow> Token" where
  "issued_token now1 now2 userID expiresIn =
     NewWithClaims (SigningMethodHMAC SHA256)
       \<lparr>Issuer = ''chirpy'', Subject = uuid_String userID, Audience = [],
        ExpiresAt = Some (NewNumericDate (now2 + expiresIn)),
        NotBefore = None,
        IssuedAt = Some (NewNumericDate now1),
        ID = []\<rparr>"

text \<open>The HMAC-SHA256 tag of a token's signing string under a secret.\<close>

definition hs256_tag :: "StdLib \<Rightarrow> Token \<Rightarrow> string \<Rightarrow> bytes" where
  "hs256_tag L t secret = hmac_Sum (sha256_Sum L) 64 secret (SigningString L t)"

text \<open>
  The key block of HMAC: the key, replaced by its digest when it is longer than the
  block, copied into a zeroed block.  Two secrets are the same HMAC key exactly when
  their key blocks are equal.
\<close>

definition hmac_key_block :: "(bytes \<Rightarrow> bytes) \<Rightarrow> nat \<Rightarrow> bytes \<Rightarrow> bytes" where
  "hmac_key_block h blocksize key =
     copy (replicate blocksize (CHR 0x00)) (if length key > blocksize then h key else key)"

text \<open>
  What the theorems about issued tokens assume of the codecs, and only for the token at
  hand: the three encoded segments contain no dot, base64 decoding returns the encoded
  bytes, and JSON decoding returns the encoded header and claims.
\<close>

definition reads_back :: "StdLib \<Rightarrow> Token \<Rightarrow> bytes \<Rightarrow> bool" where
  "reads_back L t sig \<longleftrightarrow>
     (let hb = json_Marshal_Header L (Header t);
          cb = json_Marshal_Claims L (Claims t)
      in CHR ''.'' \<notin> set (base64_Encode L hb) \<and>
         CHR ''.'' \<notin> set (base64_Encode L cb) \<and>
         CHR ''.'' \<notin> set (base64_Encode L sig) \<and>
         base64_Decode L (base64_Encode L hb) = Some hb \<and>
         base64_Decode L (base64_Encode L cb) = Some cb \<and>
         base64_Decode L (base64_Encode L sig) = Some sig \<and>
         json_Unmarshal_Header L hb = Some (Header t) \<and>
         json_Unmarshal_Claims L cb = Some (Claims t))"

text \<open>
  A token string is structurally well formed when it has three segments that all decode:
  \<open>decoded\<close> returns its header, its claims, its signature and its signing string.
\<close>

definition decoded ::
  "StdLib \<Rightarrow> string \<Rightarrow> (Header \<times> RegisteredClaims \<times> bytes \<times> string) option" where
  "decoded L tokenString =
     (case strings_Split (CHR ''.'') tokenString of
        [p0, p1, p2] \<Rightarrow>
          (case (base64_Decode L p0, base64_Decode L p1, base64_Decode L p2) of
             (Some hb, Some cb, Some sig) \<Rightarrow>
               (case (json_Unmarshal_Header L hb, json_Unmarshal_Claims L cb) of
                  (Some h, Some c) \<Rightarrow> Some (h, c, sig, p0 @ ''.'' @ p1)
                | _ \<Rightarrow> None)
           | _ \<Rightarrow> None)
      | _ \<Rightarrow> None)"

text \<open>
  The specification's error names, as classes of the Go errors that \<^verbatim>\<open>ValidateJWT\<close>
  returns: \<open>AlgorithmMismatchError\<close> wraps \<^verbatim>\<open>jwt.ErrTokenUnverifiable\<close>,
  \<open>SignatureError\<close> wraps \<^verbatim>\<open>jwt.ErrTokenSignatureInvalid\<close>, \<open>ExpiredError\<close> is an
  invalid-claims error whose joined causes include \<^verbatim>\<open>jwt.ErrTokenExpired\<close>, and
  \<open>MalformedSubjectError\<close> is the error the function makes when \<^verbatim>\<open>uuid.Parse\<close> fails.
\<close>

fun AlgorithmMismatchError :: "error \<Rightarrow> bool" where
  "AlgorithmMismatchError (jwt_newError msg ErrTokenUnverifiable causes) = True"
| "AlgorithmMismatchError e = False"

fun SignatureError :: "error \<Rightarrow> bool" where
  "SignatureError (jwt_newError msg ErrTokenSignatureInvalid causes) = True"
| "SignatureError e = False"

fun ExpiredError :: "error \<Rightarrow> bool" where
  "ExpiredError (jwt_newError msg ErrTokenInvalidClaims [jwt_joinErrors errs]) =
     (jwt_sentinel_error ErrTokenExpired \<in> set errs)"
| "ExpiredError e = False"

definition MalformedSubjectError :: "error \<Rightarrow> bool" where
  "MalformedSubjectError e \<longleftrightarrow> e = errors_New ''invalid user ID in token''"

text \<open>The four rejection conditions of the specification, on a decoded token.\<close>

definition hmac_alg :: "string \<Rightarrow> bool" where
  "hmac_alg alg \<longleftrightarrow> alg = ''HS256'' \<or> alg = ''HS384'' \<or> alg = ''HS512''"

definition bad_signature :: "StdLib \<Rightarrow> string \<Rightarrow> string \<Rightarrow> bytes \<Rightarrow> string \<Rightarrow> bool" where
  "bad_signature L alg text sig secret \<longleftrightarrow>
     (case GetSigningMethod alg of
        None \<Rightarrow> True
      | Some m \<Rightarrow> Verify L m text sig secret \<noteq> None)"

definition expired :: "RegisteredClaims \<Rightarrow> Time \<Rightarrow> bool" where
  "expired c now \<longleftrightarrow> (case ExpiresAt c of None \<Rightarrow> False | Some exp \<Rightarrow> exp \<le> now)"

definition malformed_subject :: "RegisteredClaims \<Rightarrow> bool" where
  "malformed_subject c \<longleftrightarrow> snd (uuid_Parse (Subject c)) \<noteq> None"

text \<open>
  What \<^verbatim>\<open>ValidateJWT\<close> returns on a decoded token, check by check: the signing method
  named by the header, the signature, the claims, the subject.
\<close>

definition outcome ::
  "StdLib \<Rightarrow> Time \<Rightarrow> string \<Rightarrow> Header \<Rightarrow> RegisteredClaims \<Rightarrow> bytes \<Rightarrow> string
     \<Rightarrow> UUID \<times> error option" where
  "outcome L now secret h c sig text =
     (case map_of h ''alg'' of
        Some (JString alg) \<Rightarrow>
          (case GetSigningMethod alg of
             None \<Rightarrow> (uuid_Nil, Some (jwt_newError ''signing method (alg) is unavailable''
                                          ErrTokenUnverifiable []))
           | Some (SigningMethodHMAC hh) \<Rightarrow>
               if sig \<noteq> hmac_Sum (hash_New L hh) (hash_BlockSize hh) secret text
               then (uuid_Nil, Some (jwt_newError [] ErrTokenSignatureInvalid
                                       [jwt_sentinel_error ErrSignatureInvalid]))
               else (case Validate c now of
                       Some e \<Rightarrow> (uuid_Nil, Some (jwt_newError [] ErrTokenInvalidClaims [e]))
                     | None \<Rightarrow>
                         (case uuid_Parse (Subject c) of
                            (u, Some e) \<Rightarrow> (uuid_Nil, Some (errors_New ''invalid user ID in token''))
                          | (u, None) \<Rightarrow> (u, None)))
           | Some m \<Rightarrow> (uuid_Nil, Some (jwt_newError ''error while executing keyfunc''
                                           ErrTokenUnverifiable
                                           [errors_New ''unexpected signing method''])))
      | _ \<Rightarrow> (uuid_Nil, Some (jwt_newError ''signing method (alg) is unspecified''
                                ErrTokenUnverifiable [])))"

text \<open>
  What the theorems about password hashes assume of bcrypt's base64 codec, and only for
  the salt at hand: it encodes to 22 bytes and decodes back.
\<close>

definition salt_codec_ok :: "BcryptPrims \<Rightarrow> bytes \<Rightarrow> bool" where
  "salt_codec_ok B r \<longleftrightarrow>
     length (bc_base64Encode B r) = encodedSaltSize \<and>
     bc_base64Decode B (bc_base64Encode B r) = Some r"

text \<open>Concrete inputs for the evaluations below.\<close>

definition U1 :: UUID where
  "U1 = replicate 16 (CHR 0x11)"

definition half_second :: Time where
  "half_second = 500000000"

definition one_minute :: Duration where
  "one_minute = 60000000000"

definition salt1 :: bytes where
  "salt1 = ''0123456789abcdef''"

definition salt2 :: bytes where
  "salt2 = ''0123456789abcdeg''"

text \<open>
  A token string with a given signing method in its header, given claims and a given
  signature: what \<^verbatim>\<open>SignedString\<close> writes, for any signature bytes.
\<close>

definition signed_with :: "StdLib \<Rightarrow> SigningMethod \<Rightarrow> RegisteredClaims \<Rightarrow> bytes \<Rightarrow> string" where
  "signed_with L m c sig =
     SigningString L (NewWithClaims m c) @ ''.'' @ base64_Encode L sig"

definition hmac_tag :: "StdLib \<Rightarrow> crypto_Hash \<Rightarrow> RegisteredClaims \<Rightarrow> string \<Rightarrow> bytes" where
  "hmac_tag L hh c secret =
     hmac_Sum (hash_New L hh) (hash_BlockSize hh) secret
       (SigningString L (NewWithClaims (SigningMethodHMAC hh) c))"

definition example_claims :: "string \<Rightarrow> Time option \<Rightarrow> RegisteredClaims" where
  "example_claims sub exp =
     \<lparr>Issuer = ''chirpy'', Subject = sub, Audience = [], ExpiresAt = exp,
      NotBefore = None, IssuedAt = Some 0, ID = []\<rparr>"

definition bad_subject :: string where
  "bad_subject = ''11111111-1111-1111-1111-1111111111zz''"

definition bad_claims :: RegisteredClaims where
  "bad_claims = example_claims bad_subject (Some one_minute)"

definition none_token :: string where
  "none_token = signed_with ref_lib signingMethodNone bad_claims []"

definition hs256_token :: string where
  "hs256_token =
     signed_with ref_lib (SigningMethodHMAC SHA256) bad_claims
       (hmac_tag ref_lib SHA256 bad_claims ''supersecretkey'')"

definition issued_example :: string where
  "issued_example =
     fst (MakeJWT ref_lib half_second half_second U1 ''supersecretkey'' one_minute)"

section \<open>Auxiliary facts\<close>

subsection \<open>UUID strings\<close>

lemma nat_below_16:
  "(a::nat) < 16 \<Longrightarrow> a = 0 \<or> a = 1 \<or> a = 2 \<or> a = 3 \<or> a = 4 \<or> a = 5 \<or> a = 6 \<or> a = 7 \<or>
     a = 8 \<or> a = 9 \<or> a = 10 \<or> a = 11 \<or> a = 12 \<or> a = 13 \<or> a = 14 \<or> a = 15"
  by arith

lemma xvalues_hextable: "a < 16 \<Longrightarrow> xvalues (hextable ! a) = a"
  by (drule nat_below_16) (auto simp: xvalues_def hextable_def)

lemma or_nibbles:
  assumes "b < 16"
  shows "a * 16 OR b = a * 16 + (b::nat)"
proof -
  have b: "take_bit 4 b = b"
    using assms by (simp add: take_bit_eq_mod)
  have "push_bit 4 a AND take_bit 4 b = 0"
    by (simp add: bit_eq_iff bit_simps)
  then have "push_bit 4 a + take_bit 4 b = push_bit 4 a OR take_bit 4 b"
    by (rule disjunctive_add_eq_or)
  then show ?thesis
    by (simp add: b push_bit_eq_mult)
qed

lemma xtob_hex_byte:
  "xtob (hextable ! ((of_char c :: nat) div 16)) (hextable ! ((of_char c :: nat) mod 16)) = (c, True)"
proof -
  let ?n = "of_char c :: nat"
  have n: "?n < 256" by simp
  have a: "?n div 16 < 16" using n by (simp add: less_mult_imp_div_less)
  have b: "?n mod 16 < 16" by simp
  have m: "(?n div 16 * 16) mod 256 = ?n div 16 * 16" using a by simp
  have "((?n div 16 * 16) mod 256) OR (?n mod 16) = ?n div 16 * 16 + ?n mod 16"
    unfolding m using b by (rule or_nibbles)
  also have "\<dots> = ?n" by simp
  finally show ?thesis
    using a b by (simp add: xtob_def xvalues_hextable Let_def)
qed

lemma length16:
  "length (u::'a list) = 16 \<Longrightarrow>
   \<exists>a0 a1 a2 a3 a4 a5 a6 a7 a8 a9 a10 a11 a12 a13 a14 a15.
     u = [a0, a1, a2, a3, a4, a5, a6, a7, a8, a9, a10, a11, a12, a13, a14, a15]"
  by (simp add: numeral_eq_Suc length_Suc_conv) blast

lemma replicate_16:
  "replicate 16 x = [x, x, x, x, x, x, x, x, x, x, x, x, x, x, x, x]"
  by (simp add: numeral_eq_Suc)

lemma uuid_Parse_String: "length u = 16 \<Longrightarrow> uuid_Parse (uuid_String u) = (u, None)"
proof -
  assume len: "length u = 16"
  from length16 [OF len]
  obtain a0 a1 a2 a3 a4 a5 a6 a7 a8 a9 a10 a11 a12 a13 a14 a15 where
    u: "u = [a0, a1, a2, a3, a4, a5, a6, a7, a8, a9, a10, a11, a12, a13, a14, a15]"
    by blast
  have hb: "\<And>c. hex_byte c =
      [hextable ! ((of_char c :: nat) div 16), hextable ! ((of_char c :: nat) mod 16)]"
    by (simp add: hex_byte_def)
  show ?thesis
    unfolding u uuid_String_def hex_Encode_def uuid_Parse_def
    by (simp add: hb xtob_hex_byte Let_def replicate_16)
qed

subsection \<open>Splitting and decoding a token string\<close>

lemma strings_Split_not_Nil: "strings_Split sep s \<noteq> []"
  by (induction s) (auto split: list.splits)

lemma strings_Split_no_sep: "sep \<notin> set a \<Longrightarrow> strings_Split sep a = [a]"
  by (induction a) auto

lemma strings_Split_append:
  "sep \<notin> set a \<Longrightarrow> strings_Split sep (a @ sep # r) = a # strings_Split sep r"
  by (induction a) (auto split: list.splits simp: strings_Split_not_Nil)

lemma strings_Split_three:
  "sep \<notin> set a \<Longrightarrow> sep \<notin> set b \<Longrightarrow> sep \<notin> set c \<Longrightarrow>
   strings_Split sep (a @ sep # b @ sep # c) = [a, b, c]"
  by (simp add: strings_Split_append strings_Split_no_sep)

lemma GetSigningMethod_Alg: "GetSigningMethod (Alg m) = Some m"
proof (cases m)
  case (SigningMethodHMAC h) then show ?thesis by (cases h) (simp_all add: GetSigningMethod_def)
next
  case (SigningMethodRSA h) then show ?thesis by (cases h) (simp_all add: GetSigningMethod_def)
next
  case (SigningMethodRSAPSS h) then show ?thesis by (cases h) (simp_all add: GetSigningMethod_def)
next
  case (SigningMethodECDSA h) then show ?thesis by (cases h) (simp_all add: GetSigningMethod_def)
qed (simp_all add: GetSigningMethod_def)

lemma decoded_signed:
  assumes "reads_back L t sig"
  shows "decoded L (SigningString L t @ ''.'' @ base64_Encode L sig) =
         Some (Header t, Claims t, sig, SigningString L t)"
  using assms
  by (simp add: reads_back_def decoded_def SigningString_def Let_def strings_Split_three)

lemma decoded_parts:
  assumes "decoded L tokenString = Some (h, c, sig, text)"
  obtains p0 p1 p2 hb cb where
    "strings_Split (CHR ''.'') tokenString = [p0, p1, p2]"
    "base64_Decode L p0 = Some hb" "json_Unmarshal_Header L hb = Some h"
    "base64_Decode L p1 = Some cb" "json_Unmarshal_Claims L cb = Some c"
    "base64_Decode L p2 = Some sig" "text = p0 @ ''.'' @ p1"
proof -
  from assms obtain p0 p1 p2 where sp: "strings_Split (CHR ''.'') tokenString = [p0, p1, p2]"
    by (cases "strings_Split (CHR ''.'') tokenString" rule: list.exhaust)
       (simp_all add: decoded_def split: list.splits)
  from assms sp obtain hb cb where
    "base64_Decode L p0 = Some hb" "base64_Decode L p1 = Some cb" "base64_Decode L p2 = Some sig"
    "(case (json_Unmarshal_Header L hb, json_Unmarshal_Claims L cb) of
        (Some h, Some c) \<Rightarrow> Some (h, c, sig, p0 @ ''.'' @ p1)
      | _ \<Rightarrow> None) = Some (h, c, sig, text)"
    by (simp add: decoded_def split: option.splits)
  then show thesis
    using sp that by (simp split: option.splits)
qed

lemma ParseUnverified_decoded:
  assumes "strings_Split (CHR ''.'') tokenString = [p0, p1, p2]"
    "base64_Decode L p0 = Some hb" "json_Unmarshal_Header L hb = Some h"
    "base64_Decode L p1 = Some cb" "json_Unmarshal_Claims L cb = Some c"
  shows "ParseUnverified L tokenString =
     (case map_of h ''alg'' of
        Some (JString alg) \<Rightarrow>
          (case GetSigningMethod alg of
             None \<Rightarrow> Inl (jwt_newError ''signing method (alg) is unavailable'' ErrTokenUnverifiable [])
           | Some method \<Rightarrow>
               Inr (\<lparr>Raw = tokenString, Method = method, Header = h, Claims = c,
                     Signature = [], Valid = False\<rparr>, p0, p1, p2))
      | _ \<Rightarrow> Inl (jwt_newError ''signing method (alg) is unspecified'' ErrTokenUnverifiable []))"
  unfolding ParseUnverified_def by (simp add: assms)

lemma ValidateJWT_decoded:
  assumes "decoded L tokenString = Some (h, c, sig, text)"
  shows "ValidateJWT L now tokenString secret = outcome L now secret h c sig text"
proof -
  from assms obtain p0 p1 p2 hb cb where
    f: "strings_Split (CHR ''.'') tokenString = [p0, p1, p2]"
    "base64_Decode L p0 = Some hb" "json_Unmarshal_Header L hb = Some h"
    "base64_Decode L p1 = Some cb" "json_Unmarshal_Claims L cb = Some c"
    and s: "base64_Decode L p2 = Some sig" and t: "text = p0 @ ''.'' @ p1"
    by (rule decoded_parts)
  note pu = ParseUnverified_decoded [OF f]
  show ?thesis
  proof (cases "map_of h ''alg''")
    case None
    then show ?thesis
      by (simp add: ValidateJWT_def ParseWithClaims_def pu outcome_def)
  next
    case (Some v)
    show ?thesis
    proof (cases v)
      case JNonString
      with Some show ?thesis
        by (simp add: ValidateJWT_def ParseWithClaims_def pu outcome_def)
    next
      case (JString alg)
      show ?thesis
      proof (cases "GetSigningMethod alg")
        case None
        with Some JString show ?thesis
          by (simp add: ValidateJWT_def ParseWithClaims_def pu outcome_def)
      next
        case (Some m)
        with \<open>map_of h ''alg'' = Some v\<close> JString show ?thesis
          by (cases m)
             (simp_all add: ValidateJWT_def ParseWithClaims_def pu outcome_def keyFunc_def s t
                            Let_def
                       split: option.splits prod.splits)
      qed
    qed
  qed
qed

subsection \<open>The reference codecs read back what they wrote\<close>

lemma unescape_escape:
  "sep \<noteq> CHR '':'' \<Longrightarrow> sep \<noteq> CHR ''~'' \<Longrightarrow> unescape sep (escape sep s) = Some s"
  by (induction s) auto

lemma sep_notin_escape:
  "sep \<noteq> CHR '':'' \<Longrightarrow> sep \<noteq> CHR ''~'' \<Longrightarrow> sep \<notin> set (escape sep s)"
  by (induction s) auto

lemma split_put_fields:
  "strings_Split (CHR '';'') (put_fields fs) = map (escape (CHR '';'')) fs @ [[]]"
proof (induction fs)
  case Nil
  then show ?case by (simp add: put_fields_def)
next
  case (Cons f fs)
  have "strings_Split (CHR '';'') (escape (CHR '';'') f @ CHR '';'' # put_fields fs) =
        escape (CHR '';'') f # strings_Split (CHR '';'') (put_fields fs)"
    by (rule strings_Split_append) (simp add: sep_notin_escape)
  with Cons show ?case by (simp add: put_fields_def)
qed

lemma those_map_unescape:
  "those (map (unescape (CHR '';'') \<circ> escape (CHR '';'')) fs) = Some fs"
  by (induction fs) (simp_all add: unescape_escape)

lemma get_put_fields: "get_fields (put_fields fs) = Some fs"
  by (simp add: get_fields_def split_put_fields those_map_unescape)

lemma of_bits_bits_of: "of_bits (bits_of n) = Some n"
proof (induction n rule: bits_of.induct)
  case (1 n)
  show ?case
  proof (cases "n = 0")
    case True
    then show ?thesis by (simp add: bits_of.simps [of 0])
  next
    case False
    with 1 have ih: "of_bits (bits_of (n div 2)) = Some (n div 2)" by simp
    have e: "bits_of n = (if odd n then CHR ''1'' else CHR ''0'') # bits_of (n div 2)"
      using False by (subst bits_of.simps) simp
    show ?thesis
      unfolding e using ih by (cases "odd n") (auto elim: oddE)
  qed
qed

lemma get_put_time: "get_time (put_time t) = Some t"
  by (cases t) (auto simp: get_time_def put_time_def of_bits_bits_of)

lemma ref_Unmarshal_Marshal_Claims: "ref_Unmarshal_Claims (ref_Marshal_Claims c) = Some c"
  by (simp add: ref_Unmarshal_Claims_def ref_Marshal_Claims_def get_put_fields get_put_time)

lemma get_put_header: "get_header (put_header h) = Some h"
proof (induction h)
  case Nil
  then show ?case by simp
next
  case (Cons kv h)
  obtain k v where kv: "kv = (k, v)" by (cases kv)
  show ?case
    using Cons unfolding kv by (cases v) simp_all
qed

lemma ref_Unmarshal_Marshal_Header: "ref_Unmarshal_Header (ref_Marshal_Header h) = Some h"
  by (simp add: ref_Unmarshal_Header_def ref_Marshal_Header_def get_put_fields get_put_header)

lemma ref_reads_back: "reads_back ref_lib t sig"
  by (simp add: reads_back_def ref_lib_def unescape_escape sep_notin_escape
                ref_Unmarshal_Marshal_Header ref_Unmarshal_Marshal_Claims)

subsection \<open>Issued tokens\<close>

lemma MakeJWT_signed:
  "MakeJWT L now1 now2 userID secret expiresIn =
     (SigningString L (issued_token now1 now2 userID expiresIn) @ ''.'' @
      base64_Encode L (hs256_tag L (issued_token now1 now2 userID expiresIn) secret), None)"
  by (simp add: MakeJWT_def issued_token_def hs256_tag_def SignedString_def NewWithClaims_def Let_def)

lemma issued_token_simps:
  "Header (issued_token now1 now2 userID expiresIn) =
     [(''typ'', JString ''JWT''), (''alg'', JString ''HS256'')]"
  "Claims (issued_token now1 now2 userID expiresIn) =
     \<lparr>Issuer = ''chirpy'', Subject = uuid_String userID, Audience = [],
      ExpiresAt = Some (NewNumericDate (now2 + expiresIn)), NotBefore = None,
      IssuedAt = Some (NewNumericDate now1), ID = []\<rparr>"
  by (simp_all add: issued_token_def NewWithClaims_def)

lemma ValidateJWT_issued:
  assumes rb: "reads_back L (issued_token now1 now2 userID expiresIn)
                 (hs256_tag L (issued_token now1 now2 userID expiresIn) secretA)"
    and len: "length userID = 16"
  shows "ValidateJWT L now (fst (MakeJWT L now1 now2 userID secretA expiresIn)) secretB =
     (if hs256_tag L (issued_token now1 now2 userID expiresIn) secretA \<noteq>
         hs256_tag L (issued_token now1 now2 userID expiresIn) secretB
      then (uuid_Nil, Some (jwt_newError [] ErrTokenSignatureInvalid
                              [jwt_sentinel_error ErrSignatureInvalid]))
      else if now < NewNumericDate (now2 + expiresIn) then (userID, None)
      else (uuid_Nil, Some (jwt_newError [] ErrTokenInvalidClaims
                              [jwt_joinErrors [jwt_sentinel_error ErrTokenExpired]])))"
proof -
  let ?t = "issued_token now1 now2 userID expiresIn"
  have d: "decoded L (fst (MakeJWT L now1 now2 userID secretA expiresIn)) =
           Some (Header ?t, Claims ?t, hs256_tag L ?t secretA, SigningString L ?t)"
    using decoded_signed [OF rb] by (simp add: MakeJWT_signed)
  have alg: "map_of (Header ?t) ''alg'' = Some (JString ''HS256'')"
    by (simp add: issued_token_simps)
  have m: "GetSigningMethod ''HS256'' = Some (SigningMethodHMAC SHA256)"
    by (simp add: GetSigningMethod_def)
  show ?thesis
    unfolding ValidateJWT_decoded [OF d] outcome_def alg
    by (simp add: m hs256_tag_def issued_token_simps Validate_def verifyExpiresAt_def
                  verifyNotBefore_def uuid_Parse_String [OF len])
qed

text \<open>
  HMAC pads a short key with zero bytes up to the block size, so a key and the same key
  followed by a zero byte give the same tag, whatever the hash function is.
\<close>

lemma hmac_Sum_trailing_zero:
  assumes "length key < blocksize"
  shows "hmac_Sum h blocksize (key @ [CHR 0x00]) msg = hmac_Sum h blocksize key msg"
proof -
  have s: "Suc (blocksize - Suc (length key)) = blocksize - length key"
    using assms by simp
  have "CHR 0x00 # replicate (blocksize - Suc (length key)) (CHR 0x00) =
        replicate (Suc (blocksize - Suc (length key))) (CHR 0x00)"
    by simp
  then have r: "CHR 0x00 # replicate (blocksize - Suc (length key)) (CHR 0x00) =
        replicate (blocksize - length key) (CHR 0x00)"
    unfolding s .
  have "copy (replicate blocksize (CHR 0x00)) (key @ [CHR 0x00]) =
        key @ replicate (blocksize - length key) (CHR 0x00)"
    using assms by (simp add: copy_def r)
  moreover have "copy (replicate blocksize (CHR 0x00)) key =
        key @ replicate (blocksize - length key) (CHR 0x00)"
    using assms by (simp add: copy_def)
  ultimately show ?thesis
    using assms by (simp add: hmac_Sum_def)
qed

lemma char_of_nat_eq:
  "char_of (n::nat) = Char (odd n) (odd (n div 2)) (odd (n div 4)) (odd (n div 8))
     (odd (n div 16)) (odd (n div 32)) (odd (n div 64)) (odd (n div 128))"
  by (simp add: char_of_def bit_iff_odd)

subsection \<open>Evaluating the checks on a decoded token\<close>

lemma hmac_alg_iff: "hmac_alg alg \<longleftrightarrow> (\<exists>hh. GetSigningMethod alg = Some (SigningMethodHMAC hh))"
  by (auto simp: hmac_alg_def GetSigningMethod_def split: if_splits)

lemma outcome_not_hmac:
  assumes "map_of h ''alg'' = Some (JString alg)" "\<not> hmac_alg alg"
  shows "\<exists>e. outcome L now secret h c sig text = (uuid_Nil, Some e) \<and> AlgorithmMismatchError e \<and>
           (GetSigningMethod alg \<noteq> None \<longrightarrow>
              e = jwt_newError ''error while executing keyfunc'' ErrTokenUnverifiable
                    [errors_New ''unexpected signing method''])"
proof (cases "GetSigningMethod alg")
  case None
  with assms show ?thesis by (simp add: outcome_def)
next
  case (Some m)
  with assms have "\<And>hh. m \<noteq> SigningMethodHMAC hh"
    by (auto simp: hmac_alg_iff)
  with Some assms show ?thesis
    by (cases m) (auto simp: outcome_def)
qed

lemma outcome_hmac:
  assumes "map_of h ''alg'' = Some (JString alg)" "GetSigningMethod alg = Some (SigningMethodHMAC hh)"
  shows "outcome L now secret h c sig text =
     (if bad_signature L alg text sig secret
      then (uuid_Nil, Some (jwt_newError [] ErrTokenSignatureInvalid
                              [jwt_sentinel_error ErrSignatureInvalid]))
      else (case Validate c now of
              Some e \<Rightarrow> (uuid_Nil, Some (jwt_newError [] ErrTokenInvalidClaims [e]))
            | None \<Rightarrow>
                (case uuid_Parse (Subject c) of
                   (u, Some e) \<Rightarrow> (uuid_Nil, Some (errors_New ''invalid user ID in token''))
                 | (u, None) \<Rightarrow> (u, None))))"
  using assms by (simp add: outcome_def bad_signature_def)

lemma Validate_expired:
  assumes "expired c now"
  shows "\<exists>errs. Validate c now = Some (jwt_joinErrors errs) \<and>
                 jwt_sentinel_error ErrTokenExpired \<in> set errs"
  using assms
  by (auto simp: expired_def Validate_def verifyExpiresAt_def Let_def split: option.splits)

lemma Validate_None_not_expired: "Validate c now = None \<Longrightarrow> \<not> expired c now"
  using Validate_expired [of c now] by auto

lemma signed_with_decoded:
  assumes "reads_back L (NewWithClaims m c) sig"
  shows "decoded L (signed_with L m c sig) =
         Some ([(''typ'', JString ''JWT''), (''alg'', JString (Alg m))], c, sig,
               SigningString L (NewWithClaims m c))"
  using decoded_signed [OF assms] by (simp add: signed_with_def NewWithClaims_def)

lemma bad_subject_Parse:
  "uuid_Parse bad_subject =
     ([CHR 0x11, CHR 0x11, CHR 0x11, CHR 0x11, CHR 0x11, CHR 0x11, CHR 0x11, CHR 0x11,
       CHR 0x11, CHR 0x11, CHR 0x11, CHR 0x11, CHR 0x11, CHR 0x11, CHR 0x11, CHR 0x00],
      Some (errors_New ''invalid UUID format''))"
  by (simp add: uuid_Parse_def bad_subject_def xtob_def xvalues_def char_of_nat_eq Let_def
                replicate_16)

lemma length_U1: "length U1 = 16"
  by (simp add: U1_def)

lemma ref_tag_hd:
  assumes "length (k # key) \<le> 64"
  shows "hd (hs256_tag ref_lib t (k # key)) = xor_byte 0x5c k"
  using assms
  by (simp add: hs256_tag_def hmac_Sum_def ref_lib_def ref_digest_def copy_def Let_def)

lemma ref_tags_differ:
  "hs256_tag ref_lib t ''wrongsecretkey'' \<noteq> hs256_tag ref_lib t ''supersecretkey''"
proof
  assume "hs256_tag ref_lib t ''wrongsecretkey'' = hs256_tag ref_lib t ''supersecretkey''"
  then have "hd (hs256_tag ref_lib t ''wrongsecretkey'') = hd (hs256_tag ref_lib t ''supersecretkey'')"
    by simp
  then show False
    by (simp add: ref_tag_hd xor_byte_def char_of_nat_eq)
qed

subsection \<open>The order of the checks\<close>

lemma Validate_Some:
  assumes "Validate c now = Some e"
  shows "\<exists>errs. e = jwt_joinErrors errs \<and>
           (jwt_sentinel_error ErrTokenExpired \<in> set errs \<longleftrightarrow> expired c now)"
  using assms
  by (auto simp: Validate_def verifyExpiresAt_def verifyNotBefore_def expired_def Let_def
           split: option.splits if_splits)

lemma Validate_None: "Validate c now = None \<Longrightarrow> \<not> expired c now"
  by (auto simp: Validate_def verifyExpiresAt_def expired_def Let_def
           split: option.splits if_splits)

lemma outcome_not_hmac_eq:
  assumes "map_of h ''alg'' = Some (JString alg)" "\<not> hmac_alg alg"
  shows "outcome L now secret h c sig text =
     (uuid_Nil, Some (if GetSigningMethod alg = None
                      then jwt_newError ''signing method (alg) is unavailable''
                             ErrTokenUnverifiable []
                      else jwt_newError ''error while executing keyfunc'' ErrTokenUnverifiable
                             [errors_New ''unexpected signing method'']))"
proof (cases "GetSigningMethod alg")
  case None
  with assms show ?thesis by (simp add: outcome_def)
next
  case (Some m)
  with assms have "\<And>hh. m \<noteq> SigningMethodHMAC hh"
    by (auto simp: hmac_alg_iff)
  with Some assms show ?thesis
    by (cases m) (auto simp: outcome_def)
qed

lemma outcome_cases:
  assumes alg: "map_of h ''alg'' = Some (JString alg)"
  shows
    "(\<not> hmac_alg alg \<and>
      (\<exists>e. outcome L now secret h c sig sstr = (uuid_Nil, Some e) \<and> AlgorithmMismatchError e \<and>
            \<not> SignatureError e \<and> \<not> ExpiredError e \<and> \<not> MalformedSubjectError e))
   \<or> (hmac_alg alg \<and> bad_signature L alg sstr sig secret \<and>
      (\<exists>e. outcome L now secret h c sig sstr = (uuid_Nil, Some e) \<and> SignatureError e \<and>
            \<not> ExpiredError e \<and> \<not> MalformedSubjectError e))
   \<or> (hmac_alg alg \<and> \<not> bad_signature L alg sstr sig secret \<and> Validate c now \<noteq> None \<and>
      (\<exists>e. outcome L now secret h c sig sstr = (uuid_Nil, Some e) \<and>
            (ExpiredError e \<longleftrightarrow> expired c now) \<and> \<not> MalformedSubjectError e))
   \<or> (hmac_alg alg \<and> \<not> bad_signature L alg sstr sig secret \<and> Validate c now = None \<and>
      \<not> expired c now \<and> malformed_subject c \<and>
      outcome L now secret h c sig sstr = (uuid_Nil, Some (errors_New ''invalid user ID in token'')))
   \<or> (hmac_alg alg \<and> \<not> bad_signature L alg sstr sig secret \<and> Validate c now = None \<and>
      \<not> expired c now \<and> \<not> malformed_subject c \<and>
      snd (outcome L now secret h c sig sstr) = None)"
proof (cases "hmac_alg alg")
  case False
  show ?thesis
    using False by (simp add: outcome_not_hmac_eq [OF alg False] MalformedSubjectError_def)
next
  case True
  then obtain hh where m: "GetSigningMethod alg = Some (SigningMethodHMAC hh)"
    by (auto simp: hmac_alg_iff)
  note o = outcome_hmac [OF alg m]
  show ?thesis
  proof (cases "bad_signature L alg sstr sig secret")
    case bad: True
    with True show ?thesis by (simp add: o MalformedSubjectError_def)
  next
    case good: False
    show ?thesis
    proof (cases "Validate c now")
      case (Some e)
      from Validate_Some [OF Some] obtain errs where
        "e = jwt_joinErrors errs"
        "jwt_sentinel_error ErrTokenExpired \<in> set errs \<longleftrightarrow> expired c now"
        by blast
      with True good Some show ?thesis by (simp add: o MalformedSubjectError_def)
    next
      case None
      note ne = Validate_None [OF None]
      obtain u r where p: "uuid_Parse (Subject c) = (u, r)"
        by (cases "uuid_Parse (Subject c)")
      show ?thesis
        using True good None ne p
        by (cases r) (simp_all add: o malformed_subject_def)
    qed
  qed
qed

lemma ref_hmac_tags_differ:
  "hmac_tag ref_lib SHA256 c ''wrongsecretkey'' \<noteq> hmac_tag ref_lib SHA256 c ''supersecretkey''"
  using ref_tags_differ [of "NewWithClaims (SigningMethodHMAC SHA256) c"]
  by (simp add: hmac_tag_def hs256_tag_def ref_lib_def)

lemma uuid_String_U1: "uuid_String U1 = ''11111111-1111-1111-1111-111111111111''"
  by (simp add: uuid_String_def U1_def hex_Encode_def hex_byte_def hextable_def replicate_16)

lemma none_token_decoded:
  "decoded ref_lib none_token =
     Some ([(''typ'', JString ''JWT''), (''alg'', JString ''none'')], bad_claims, [],
           SigningString ref_lib (NewWithClaims signingMethodNone bad_claims))"
  using signed_with_decoded [OF ref_reads_back] by (simp add: none_token_def)

lemma hs256_token_decoded:
  "decoded ref_lib hs256_token =
     Some ([(''typ'', JString ''JWT''), (''alg'', JString ''HS256'')], bad_claims,
           hmac_tag ref_lib SHA256 bad_claims ''supersecretkey'',
           SigningString ref_lib (NewWithClaims (SigningMethodHMAC SHA256) bad_claims))"
  using signed_with_decoded [OF ref_reads_back] by (simp add: hs256_token_def)

lemma bad_claims_facts:
  "expired bad_claims one_minute" "Validate bad_claims 0 = None" "malformed_subject bad_claims"
  by (simp_all add: bad_claims_def example_claims_def expired_def Validate_def
                    verifyExpiresAt_def verifyNotBefore_def one_minute_def malformed_subject_def
                    bad_subject_Parse)

lemma hs256_token_signature:
  "bad_signature ref_lib ''HS256''
     (SigningString ref_lib (NewWithClaims (SigningMethodHMAC SHA256) bad_claims))
     (hmac_tag ref_lib SHA256 bad_claims ''supersecretkey'') ''wrongsecretkey''"
  "\<not> bad_signature ref_lib ''HS256''
     (SigningString ref_lib (NewWithClaims (SigningMethodHMAC SHA256) bad_claims))
     (hmac_tag ref_lib SHA256 bad_claims ''supersecretkey'') ''supersecretkey''"
  using ref_hmac_tags_differ [of bad_claims]
  by (simp_all add: bad_signature_def GetSigningMethod_def hmac_tag_def)

lemma issued_example_decoded:
  "decoded ref_lib issued_example =
     Some ([(''typ'', JString ''JWT''), (''alg'', JString ''HS256'')],
           \<lparr>Issuer = ''chirpy'', Subject = uuid_String U1, Audience = [],
            ExpiresAt = Some 60000000000, NotBefore = None, IssuedAt = Some 0, ID = []\<rparr>,
           hs256_tag ref_lib (issued_token half_second half_second U1 one_minute) ''supersecretkey'',
           SigningString ref_lib (issued_token half_second half_second U1 one_minute))"
  using decoded_signed [OF ref_reads_back,
          of "issued_token half_second half_second U1 one_minute"]
  by (simp add: issued_example_def MakeJWT_signed issued_token_simps NewNumericDate_def
                TimePrecision_def half_second_def one_minute_def)

lemma issued_example_signature:
  "\<not> bad_signature ref_lib ''HS256''
     (SigningString ref_lib (issued_token half_second half_second U1 one_minute))
     (hs256_tag ref_lib (issued_token half_second half_second U1 one_minute) ''supersecretkey'')
     ''supersecretkey''"
  by (simp add: bad_signature_def GetSigningMethod_def hs256_tag_def ref_lib_def)

lemma NewNumericDate_le: "NewNumericDate t \<le> t"
  by (simp add: NewNumericDate_def TimePrecision_def)

subsection \<open>The layout of a bcrypt hash\<close>

lemma decimal_digit: "n < 10 \<Longrightarrow> decimal n = [char_of (48 + n)]"
  by (simp add: decimal.simps)

lemma decimal_10: "decimal 10 = ''10''"
  by (subst decimal.simps) (simp add: decimal_digit char_of_nat_eq)

lemma Sprintf_02d_10: "Sprintf_02d 10 = ''10''"
  by (simp add: Sprintf_02d_def decimal_10)

lemma replicate_7: "replicate 7 x = [x, x, x, x, x, x, x]"
  by (simp add: numeral_eq_Suc)

lemma replicate_60_split: "replicate 60 x = replicate 7 x @ replicate 22 x @ replicate 31 x"
  by (simp flip: replicate_add)

lemma copy_at_cost:
  "n = 4 \<Longrightarrow> copy_at (a # b # c # d # e # f # r) n [x, y] = a # b # c # d # x # y # r"
  by (simp add: copy_at_def copy_def)

lemma copy_at_salt:
  assumes "length s = 22"
  shows "copy_at (CHR ''$'' # CHR ''2'' # CHR ''a'' # CHR ''$'' # CHR ''1'' # CHR ''0'' # CHR ''$'' #
                  replicate 22 (CHR 0x00) @ replicate 31 (CHR 0x00))
           (Suc (Suc (Suc (Suc (Suc (Suc (Suc 0))))))) s =
         ''$2a$10$'' @ s @ replicate 31 (CHR 0x00)"
  using assms by (simp add: copy_at_def copy_def)

lemma copy_at_hash:
  assumes "length s = 22"
  shows "copy_at (''$2a$10$'' @ s @ replicate 31 (CHR 0x00)) 29 h =
         ''$2a$10$'' @ s @ take 31 (h @ replicate 31 (CHR 0x00))"
  using assms by (simp add: copy_at_def copy_def)

lemma Hash_default:
  assumes "length s = 22"
  shows "Hash \<lparr>hash = h, salt = s, cost = 10, major = CHR ''2'', minor = CHR ''a''\<rparr> =
         ''$2a$10$'' @ s @ take 31 (h @ replicate 31 (CHR 0x00))"
proof -
  have "Hash \<lparr>hash = h, salt = s, cost = 10, major = CHR ''2'', minor = CHR ''a''\<rparr> =
        take 60 (copy_at (''$2a$10$'' @ s @ replicate 31 (CHR 0x00)) 29 h)"
    using assms
    by (simp add: Hash_def Let_def Sprintf_02d_10 encodedSaltSize_def encodedHashSize_def
                  replicate_60_split replicate_7 numeral_2_eq_2 numeral_3_eq_3 copy_at_cost
                  copy_at_salt)
  also have "\<dots> = take 60 (''$2a$10$'' @ s @ take 31 (h @ replicate 31 (CHR 0x00)))"
    by (simp only: copy_at_hash [OF assms])
  also have "\<dots> = ''$2a$10$'' @ s @ take 31 (h @ replicate 31 (CHR 0x00))"
    using assms by simp
  finally show ?thesis .
qed

lemma strconv_Atoi_10: "strconv_Atoi ''10'' = Some 10"
  by (simp add: strconv_Atoi_def Let_def)

lemma newFromHash_default:
  assumes "length s = 22" "length h = 31"
  shows "newFromHash (''$2a$10$'' @ s @ h) =
         Inr \<lparr>hash = h, salt = s, cost = 10, major = CHR ''2'', minor = CHR ''a''\<rparr>"
  using assms
  by (simp add: newFromHash_def minHashSize_def majorVersion_def Let_def strconv_Atoi_10
                checkCost_def MinCost_def MaxCost_def encodedSaltSize_def)

lemma length_padded_hash: "length (take 31 (h @ replicate 31 (CHR 0x00))) = 31"
  by simp

lemma take_padded_hash:
  "take 31 (take 31 (h @ replicate 31 (CHR 0x00)) @ replicate 31 (CHR 0x00)) =
   take 31 (h @ replicate 31 (CHR 0x00))"
  by simp

text \<open>What \<^verbatim>\<open>HashPassword\<close> returns, case by case.\<close>

lemma HashPassword_eq:
  "HashPassword B rnd password =
     (if length password > 72 then ([], Some bcrypt_ErrPasswordTooLong)
      else if length rnd < 16 then ([], Some (if rnd = [] then io_EOF else io_ErrUnexpectedEOF))
      else (case bcrypt B password 10 (bc_base64Encode B (take 16 rnd)) of
              Inl err \<Rightarrow> ([], Some err)
            | Inr h \<Rightarrow> (Hash \<lparr>hash = h, salt = bc_base64Encode B (take 16 rnd), cost = 10,
                              major = CHR ''2'', minor = CHR ''a''\<rparr>, None)))"
  by (simp add: HashPassword_def GenerateFromPassword_def newFromPassword_def DefaultCost_def
                MinCost_def MaxCost_def checkCost_def io_ReadFull_def maxSaltSize_def Let_def
                majorVersion_def minorVersion_def
           split: sum.splits)

lemma bcrypt_decodable:
  assumes "bc_base64Decode B s = Some csalt" "csalt \<noteq> []"
  shows "bcrypt B password c s =
         Inr (bc_base64Encode B (take 23 (blowfish_crypt B (password @ [CHR 0x00]) (nat c) csalt)))"
  using assms by (simp add: bcrypt_def Let_def maxCryptedHashSize_def)

lemma CheckPasswordHash_default:
  assumes s: "length s = 22"
    and b: "bcrypt B password 10 s = Inr h"
  shows "CheckPasswordHash B
           (Hash \<lparr>hash = h, salt = s, cost = 10, major = CHR ''2'', minor = CHR ''a''\<rparr>)
           password = None"
proof -
  let ?h' = "take 31 (h @ replicate 31 (CHR 0x00))"
  have n: "newFromHash (''$2a$10$'' @ s @ ?h') =
           Inr \<lparr>hash = ?h', salt = s, cost = 10, major = CHR ''2'', minor = CHR ''a''\<rparr>"
    by (rule newFromHash_default [OF s length_padded_hash])
  show ?thesis
    unfolding CheckPasswordHash_def CompareHashAndPassword_def Hash_default [OF s] n
    by (simp add: b Hash_default [OF s] take_padded_hash del: take_append)
qed

lemma ref_salt_decodes:
  "bc_base64Decode ref_bcrypt (bc_base64Encode ref_bcrypt r) = Some r"
proof -
  define t where "t = r @ replicate ((4 * length r + 2) div 3 - length r) (CHR ''.'')"
  have l: "length r \<le> (4 * length r + 2) div 3"
    by arith
  have lt: "length t = (4 * length r + 2) div 3"
    using l by (simp add: t_def)
  have n: "3 * length t div 4 = length r"
    unfolding lt by arith
  have d: "drop (length r) t = replicate (length t - length r) (CHR ''.'')"
    by (simp add: t_def)
  have k: "take (length r) t = r"
    by (simp add: t_def)
  have e: "bc_base64Encode ref_bcrypt r = t"
    by (simp add: ref_bcrypt_def t_def)
  have "bc_base64Decode ref_bcrypt t = Some r"
    by (simp only: ref_bcrypt_def BcryptPrims.simps Let_def n d k) simp
  then show ?thesis
    by (simp only: e)
qed

lemma ref_salt_codec: "length r = 16 \<Longrightarrow> salt_codec_ok ref_bcrypt r"
  by (simp add: salt_codec_ok_def ref_bcrypt_def encodedSaltSize_def Let_def)

lemma length_salts: "length salt1 = 16" "length salt2 = 16" "salt1 \<noteq> salt2"
  by (simp_all add: salt1_def salt2_def)

subsection \<open>Secrets that are different HMAC keys\<close>

lemma hmac_Sum_key_block:
  "hmac_Sum h blocksize key msg =
     h (map (xor_byte 0x5c) (hmac_key_block h blocksize key) @
        h (map (xor_byte 0x36) (hmac_key_block h blocksize key) @ msg))"
  by (simp add: hmac_Sum_def hmac_key_block_def Let_def)

lemma length_hmac_key_block: "length (hmac_key_block h blocksize key) = blocksize"
  by (simp add: hmac_key_block_def copy_def)

lemma xor_byte_inj:
  assumes "k < 256" "xor_byte k a = xor_byte k b"
  shows "a = b"
proof -
  have t: "take_bit 8 ((of_char c :: nat) XOR k) = of_char c XOR k" for c
  proof -
    have "take_bit 8 (of_char c :: nat) = of_char c"
      by (simp add: take_bit_eq_mod)
    moreover have "take_bit 8 k = k"
      using assms(1) by (simp add: take_bit_eq_mod)
    ultimately show ?thesis
      by (simp add: take_bit_xor)
  qed
  from assms(2) have "(of_char (xor_byte k a) :: nat) = of_char (xor_byte k b)"
    by simp
  then have "((of_char a :: nat) XOR k) mod 256 = ((of_char b :: nat) XOR k) mod 256"
    by (simp add: xor_byte_def)
  then have "(of_char a :: nat) XOR k = of_char b XOR k"
    using t [of a] t [of b] by (simp add: take_bit_eq_mod)
  then have "((of_char a :: nat) XOR k) XOR k = (of_char b XOR k) XOR k"
    by simp
  then have "(of_char a :: nat) = of_char b"
    by (simp add: xor.assoc)
  then show ?thesis
    by simp
qed

lemma map_xor_byte_inj:
  assumes "k < 256" "map (xor_byte k) xs = map (xor_byte k) ys"
  shows "xs = ys"
proof -
  have "inj (xor_byte k)"
    using assms(1) by (auto intro: injI xor_byte_inj)
  then show ?thesis
    using assms(2) by (simp add: inj_map_eq_map)
qed

lemma hmac_Sum_key_blocks_differ:
  assumes "inj h"
    and "hmac_key_block h blocksize keyB \<noteq> hmac_key_block h blocksize keyA"
  shows "hmac_Sum h blocksize keyB msg \<noteq> hmac_Sum h blocksize keyA msg"
proof
  let ?A = "hmac_key_block h blocksize keyA" and ?B = "hmac_key_block h blocksize keyB"
  assume "hmac_Sum h blocksize keyB msg = hmac_Sum h blocksize keyA msg"
  then have "map (xor_byte 0x5c) ?B @ h (map (xor_byte 0x36) ?B @ msg) =
             map (xor_byte 0x5c) ?A @ h (map (xor_byte 0x36) ?A @ msg)"
    using assms(1) by (simp add: hmac_Sum_key_block inj_eq)
  then have "map (xor_byte 0x5c) ?B = map (xor_byte 0x5c) ?A"
    by (simp add: length_hmac_key_block)
  then have "?B = ?A"
    by (rule map_xor_byte_inj [rotated]) simp
  with assms(2) show False
    by simp
qed

lemma ref_digest_inj: "inj (sha256_Sum ref_lib)"
  by (simp add: ref_lib_def ref_digest_def inj_def)

lemma ref_key_blocks_differ:
  "hmac_key_block (sha256_Sum ref_lib) 64 ''wrongsecretkey'' \<noteq>
   hmac_key_block (sha256_Sum ref_lib) 64 ''supersecretkey''"
  by (simp add: hmac_key_block_def copy_def)

section \<open>The claims\<close>

text \<open>
  C10. Whenever \<^verbatim>\<open>ValidateJWT\<close> returns an error, on any of its paths and for any token
  string and secret, the identifier it returns with the error is the all-zero UUID.
\<close>

theorem ValidateJWT_error_returns_Nil:
  "snd (ValidateJWT L now tokenString tokenSecret) \<noteq> None \<Longrightarrow>
   fst (ValidateJWT L now tokenString tokenSecret) = uuid_Nil"
  by (auto simp: ValidateJWT_def Let_def split: sum.splits prod.splits option.splits if_splits)

theorem ValidateJWT_error_returns_Nil_witness:
  "snd (ValidateJWT ref_lib 0
          (signed_with ref_lib (SigningMethodHMAC SHA256) (example_claims bad_subject None)
             (hmac_tag ref_lib SHA256 (example_claims bad_subject None) ''k'')) ''k'') \<noteq> None \<and>
   fst (ValidateJWT ref_lib 0
          (signed_with ref_lib (SigningMethodHMAC SHA256) (example_claims bad_subject None)
             (hmac_tag ref_lib SHA256 (example_claims bad_subject None) ''k'')) ''k'') = uuid_Nil \<and>
   fst (uuid_Parse bad_subject) \<noteq> uuid_Nil"
proof -
  let ?c = "example_claims bad_subject None"
  let ?tok = "signed_with ref_lib (SigningMethodHMAC SHA256) ?c (hmac_tag ref_lib SHA256 ?c ''k'')"
  have d: "decoded ref_lib ?tok =
           Some ([(''typ'', JString ''JWT''), (''alg'', JString ''HS256'')], ?c,
                 hmac_tag ref_lib SHA256 ?c ''k'',
                 SigningString ref_lib (NewWithClaims (SigningMethodHMAC SHA256) ?c))"
    using signed_with_decoded [OF ref_reads_back] by simp
  have v: "ValidateJWT ref_lib 0 ?tok ''k'' =
           (uuid_Nil, Some (errors_New ''invalid user ID in token''))"
    unfolding ValidateJWT_decoded [OF d]
    by (simp add: outcome_def GetSigningMethod_def hmac_tag_def example_claims_def Validate_def
                  verifyExpiresAt_def verifyNotBefore_def bad_subject_Parse)
  have h: "snd (ValidateJWT ref_lib 0 ?tok ''k'') \<noteq> None"
    by (simp add: v)
  have p: "fst (uuid_Parse bad_subject) \<noteq> uuid_Nil"
    by (simp add: bad_subject_Parse uuid_Nil_def replicate_16)
  from h ValidateJWT_error_returns_Nil [OF h] p show ?thesis
    by blast
qed

text \<open>
  C1. A token issued for a subject validates, under the same secret, to that subject.
  As the claim states it (any time before the ttl has elapsed) this fails: the expiry
  claim is the issuing instant plus ttl rounded down to a whole second, and the token is
  rejected from that second on.  The amended claim takes the expiry claim as the bound.
\<close>

theorem Validate_Issue_before_expiry:
  assumes "length userID = 16"
    and "reads_back L (issued_token now1 now2 userID expiresIn)
           (hs256_tag L (issued_token now1 now2 userID expiresIn) secret)"
    and "now < NewNumericDate (now2 + expiresIn)"
  shows "ValidateJWT L now (fst (MakeJWT L now1 now2 userID secret expiresIn)) secret =
         (userID, None)"
  using assms by (simp add: ValidateJWT_issued)

theorem Validate_Issue_before_expiry_witness:
  "length U1 = 16 \<and>
   reads_back ref_lib (issued_token half_second half_second U1 one_minute)
     (hs256_tag ref_lib (issued_token half_second half_second U1 one_minute) ''supersecretkey'') \<and>
   half_second < NewNumericDate (half_second + one_minute) \<and>
   ValidateJWT ref_lib half_second
     (fst (MakeJWT ref_lib half_second half_second U1 ''supersecretkey'' one_minute))
     ''supersecretkey'' = (U1, None)"
proof -
  have t: "half_second < NewNumericDate (half_second + one_minute)"
    by (simp add: NewNumericDate_def TimePrecision_def half_second_def one_minute_def)
  from length_U1 ref_reads_back t
    Validate_Issue_before_expiry [OF length_U1 ref_reads_back t]
  show ?thesis by blast
qed

theorem Validate_Issue_within_ttl_counterexample:
  "0 < one_minute \<and> 60200000000 < half_second + one_minute \<and>
   ValidateJWT ref_lib 60200000000
     (fst (MakeJWT ref_lib half_second half_second U1 ''supersecretkey'' one_minute))
     ''supersecretkey'' =
   (uuid_Nil, Some (jwt_newError [] ErrTokenInvalidClaims
                      [jwt_joinErrors [jwt_sentinel_error ErrTokenExpired]]))"
  by (simp add: ValidateJWT_issued [OF ref_reads_back length_U1] NewNumericDate_def
                TimePrecision_def half_second_def one_minute_def)

text \<open>
  C5. A token issued under one secret is rejected with the signature error under another.
  As the claim states it (any two distinct secrets) this fails: HMAC pads the key with
  zero bytes, so a secret and the same secret followed by a zero byte verify each
  other's tokens.  The amended claim excludes only the pairs of secrets that are the
  same HMAC key, that is, whose 64-byte key blocks are equal; for every other pair the
  token is rejected with the signature error, the digest being free of collisions.
\<close>

theorem Validate_wrong_secret:
  assumes "length userID = 16"
    and "reads_back L (issued_token now1 now2 userID expiresIn)
           (hs256_tag L (issued_token now1 now2 userID expiresIn) secretA)"
    and "inj (sha256_Sum L)"
    and "hmac_key_block (sha256_Sum L) 64 secretB \<noteq> hmac_key_block (sha256_Sum L) 64 secretA"
  shows "ValidateJWT L now (fst (MakeJWT L now1 now2 userID secretA expiresIn)) secretB =
         (uuid_Nil, Some (jwt_newError [] ErrTokenSignatureInvalid
                            [jwt_sentinel_error ErrSignatureInvalid])) \<and>
         SignatureError (jwt_newError [] ErrTokenSignatureInvalid
                           [jwt_sentinel_error ErrSignatureInvalid])"
proof -
  have "hs256_tag L (issued_token now1 now2 userID expiresIn) secretB \<noteq>
        hs256_tag L (issued_token now1 now2 userID expiresIn) secretA"
    unfolding hs256_tag_def by (rule hmac_Sum_key_blocks_differ [OF assms(3,4)])
  with assms(1,2) show ?thesis
    by (auto simp: ValidateJWT_issued)
qed

theorem Validate_wrong_secret_witness:
  "length U1 = 16 \<and>
   reads_back ref_lib (issued_token half_second half_second U1 one_minute)
     (hs256_tag ref_lib (issued_token half_second half_second U1 one_minute) ''supersecretkey'') \<and>
   inj (sha256_Sum ref_lib) \<and>
   hmac_key_block (sha256_Sum ref_lib) 64 ''wrongsecretkey'' \<noteq>
   hmac_key_block (sha256_Sum ref_lib) 64 ''supersecretkey'' \<and>
   ValidateJWT ref_lib half_second
     (fst (MakeJWT ref_lib half_second half_second U1 ''supersecretkey'' one_minute))
     ''wrongsecretkey'' =
   (uuid_Nil, Some (jwt_newError [] ErrTokenSignatureInvalid
                      [jwt_sentinel_error ErrSignatureInvalid]))"
  using length_U1 ref_reads_back ref_digest_inj ref_key_blocks_differ
    Validate_wrong_secret [OF length_U1 ref_reads_back ref_digest_inj ref_key_blocks_differ]
  by blast

theorem Validate_distinct_secret_counterexample:
  "''k'' \<noteq> ''k'' @ [CHR 0x00] \<and>
   hmac_key_block (sha256_Sum ref_lib) 64 (''k'' @ [CHR 0x00]) =
   hmac_key_block (sha256_Sum ref_lib) 64 ''k'' \<and>
   ValidateJWT ref_lib half_second
     (fst (MakeJWT ref_lib half_second half_second U1 ''k'' one_minute))
     (''k'' @ [CHR 0x00]) = (U1, None)"
proof -
  have "hs256_tag ref_lib t (''k'' @ [CHR 0x00]) = hs256_tag ref_lib t ''k''" for t
    unfolding hs256_tag_def by (rule hmac_Sum_trailing_zero) simp
  moreover have "hmac_key_block (sha256_Sum ref_lib) 64 (''k'' @ [CHR 0x00]) =
                 hmac_key_block (sha256_Sum ref_lib) 64 ''k''"
    by (simp add: hmac_key_block_def copy_def flip: replicate_Suc)
  ultimately show ?thesis
    by (simp add: ValidateJWT_issued [OF ref_reads_back length_U1] NewNumericDate_def
                  TimePrecision_def half_second_def one_minute_def)
qed

text \<open>
  C6. The claims that \<^verbatim>\<open>MakeJWT\<close> puts in the token and how it signs.  As the claim
  states it (issued-at is the current time, expiry is issued-at plus ttl) this fails:
  both instants are rounded down to whole seconds, and the expiry is computed from a
  second reading of the clock.  The amended claim: the token carries the header
  \<^verbatim>\<open>typ = JWT\<close>, \<^verbatim>\<open>alg = HS256\<close>; issuer \<^verbatim>\<open>chirpy\<close>; subject the canonical string of
  the identifier; issued-at the first clock reading rounded down to a whole second;
  expiry the second clock reading plus ttl, rounded down to a whole second; no other
  claim; and its signature is the HMAC-SHA256 tag of its signing string under the secret.
\<close>

theorem MakeJWT_claims:
  assumes "reads_back L (issued_token now1 now2 userID expiresIn)
             (hs256_tag L (issued_token now1 now2 userID expiresIn) secret)"
  shows "snd (MakeJWT L now1 now2 userID secret expiresIn) = None \<and>
         (\<exists>text. decoded L (fst (MakeJWT L now1 now2 userID secret expiresIn)) =
            Some ([(''typ'', JString ''JWT''), (''alg'', JString ''HS256'')],
                  \<lparr>Issuer = ''chirpy'', Subject = uuid_String userID, Audience = [],
                   ExpiresAt = Some (NewNumericDate (now2 + expiresIn)), NotBefore = None,
                   IssuedAt = Some (NewNumericDate now1), ID = []\<rparr>,
                  hmac_Sum (sha256_Sum L) 64 secret text, text))"
  using decoded_signed [OF assms]
  by (simp add: MakeJWT_signed issued_token_simps hs256_tag_def)

theorem MakeJWT_claims_witness:
  "reads_back ref_lib (issued_token half_second half_second U1 one_minute)
     (hs256_tag ref_lib (issued_token half_second half_second U1 one_minute) ''supersecretkey'') \<and>
   snd (MakeJWT ref_lib half_second half_second U1 ''supersecretkey'' one_minute) = None \<and>
   (\<exists>text. decoded ref_lib
              (fst (MakeJWT ref_lib half_second half_second U1 ''supersecretkey'' one_minute)) =
      Some ([(''typ'', JString ''JWT''), (''alg'', JString ''HS256'')],
            \<lparr>Issuer = ''chirpy'', Subject = ''11111111-1111-1111-1111-111111111111'',
             Audience = [], ExpiresAt = Some 60000000000, NotBefore = None,
             IssuedAt = Some 0, ID = []\<rparr>,
            hmac_Sum ref_digest 64 ''supersecretkey'' text, text))"
proof -
  have s: "uuid_String U1 = ''11111111-1111-1111-1111-111111111111''"
    by (simp add: uuid_String_def U1_def hex_Encode_def hex_byte_def hextable_def replicate_16)
  have e: "NewNumericDate (half_second + one_minute) = 60000000000"
    by (simp add: NewNumericDate_def TimePrecision_def half_second_def one_minute_def)
  have i: "NewNumericDate half_second = 0"
    by (simp add: NewNumericDate_def TimePrecision_def half_second_def)
  have l: "sha256_Sum ref_lib = ref_digest"
    by (simp add: ref_lib_def)
  have "snd (MakeJWT ref_lib half_second half_second U1 ''supersecretkey'' one_minute) = None \<and>
        (\<exists>text. decoded ref_lib
              (fst (MakeJWT ref_lib half_second half_second U1 ''supersecretkey'' one_minute)) =
           Some ([(''typ'', JString ''JWT''), (''alg'', JString ''HS256'')],
                 \<lparr>Issuer = ''chirpy'', Subject = uuid_String U1, Audience = [],
                  ExpiresAt = Some (NewNumericDate (half_second + one_minute)), NotBefore = None,
                  IssuedAt = Some (NewNumericDate half_second), ID = []\<rparr>,
                 hmac_Sum (sha256_Sum ref_lib) 64 ''supersecretkey'' text, text))"
    by (rule MakeJWT_claims [OF ref_reads_back])
  then show ?thesis
    unfolding s e i l using ref_reads_back by blast
qed

theorem MakeJWT_expiry_counterexample:
  "map_option (\<lambda>(h, c, sig, text). (IssuedAt c, ExpiresAt c))
     (decoded ref_lib (fst (MakeJWT ref_lib 999999999 1000000000 U1 ''k'' one_minute))) =
   Some (Some 0, Some 61000000000) \<and>
   (0::int) + one_minute \<noteq> 61000000000 \<and>
   (999999999::int) + one_minute \<noteq> 61000000000"
  using decoded_signed [OF ref_reads_back, of "issued_token 999999999 1000000000 U1 one_minute"]
  by (simp add: MakeJWT_signed issued_token_simps NewNumericDate_def TimePrecision_def
                one_minute_def)

text \<open>
  C2. A structurally well-formed token whose header names a signing algorithm outside
  the HMAC family is rejected with the algorithm error, whatever its claims and
  signature are; when the named algorithm is one the library knows, the error is the one
  made by the key function of \<^verbatim>\<open>ValidateJWT\<close>.
\<close>

theorem non_HMAC_algorithm_rejected:
  assumes "decoded L tokenString = Some (h, c, sig, sstr)"
    and "map_of h ''alg'' = Some (JString alg)"
    and "\<not> hmac_alg alg"
  shows "\<exists>e. ValidateJWT L now tokenString secret = (uuid_Nil, Some e) \<and>
              AlgorithmMismatchError e \<and>
              (GetSigningMethod alg \<noteq> None \<longrightarrow>
                 e = jwt_newError ''error while executing keyfunc'' ErrTokenUnverifiable
                       [errors_New ''unexpected signing method''])"
  unfolding ValidateJWT_decoded [OF assms(1)] outcome_not_hmac_eq [OF assms(2,3)]
  by simp

theorem non_HMAC_algorithm_rejected_witness:
  "decoded ref_lib
     (signed_with ref_lib signingMethodNone (example_claims (uuid_String U1) (Some one_minute)) []) =
   Some ([(''typ'', JString ''JWT''), (''alg'', JString ''none'')],
         example_claims (uuid_String U1) (Some one_minute), [],
         SigningString ref_lib
           (NewWithClaims signingMethodNone (example_claims (uuid_String U1) (Some one_minute)))) \<and>
   \<not> hmac_alg ''none'' \<and>
   \<not> expired (example_claims (uuid_String U1) (Some one_minute)) 0 \<and>
   \<not> malformed_subject (example_claims (uuid_String U1) (Some one_minute)) \<and>
   ValidateJWT ref_lib 0
     (signed_with ref_lib signingMethodNone (example_claims (uuid_String U1) (Some one_minute)) [])
     ''supersecretkey'' =
   (uuid_Nil, Some (jwt_newError ''error while executing keyfunc'' ErrTokenUnverifiable
                      [errors_New ''unexpected signing method'']))"
proof -
  let ?c = "example_claims (uuid_String U1) (Some one_minute)"
  let ?tok = "signed_with ref_lib signingMethodNone ?c []"
  have d: "decoded ref_lib ?tok =
           Some ([(''typ'', JString ''JWT''), (''alg'', JString ''none'')], ?c, [],
                 SigningString ref_lib (NewWithClaims signingMethodNone ?c))"
    using signed_with_decoded [OF ref_reads_back] by simp
  have a: "map_of [(''typ'', JString ''JWT''), (''alg'', JString ''none'')] ''alg'' =
           Some (JString ''none'')"
    by simp
  have n: "\<not> hmac_alg ''none''"
    by (simp add: hmac_alg_def)
  have g: "GetSigningMethod ''none'' \<noteq> None"
    by (simp add: GetSigningMethod_def)
  have x: "\<not> expired ?c 0"
    by (simp add: expired_def example_claims_def one_minute_def)
  have s: "\<not> malformed_subject ?c"
    by (simp add: malformed_subject_def example_claims_def uuid_Parse_String length_U1)
  from non_HMAC_algorithm_rejected [OF d a n, of 0 "''supersecretkey''"] g
  have "ValidateJWT ref_lib 0 ?tok ''supersecretkey'' =
        (uuid_Nil, Some (jwt_newError ''error while executing keyfunc'' ErrTokenUnverifiable
                           [errors_New ''unexpected signing method'']))"
    by blast
  with d n x s show ?thesis by blast
qed

text \<open>
  C3. On a structurally well-formed token the checks are made in the order algorithm,
  signature, expiry, subject, and the first one that fails decides the error: a wrong
  algorithm gives the algorithm error whatever else holds, a bad signature gives the
  signature error whatever the claims are, an expired token gives the expiry error
  whatever the subject is; and the error of a later check is never returned while an
  earlier check fails.
\<close>

theorem rejection_precedence:
  assumes "decoded L tokenString = Some (h, c, sig, sstr)"
    and "map_of h ''alg'' = Some (JString alg)"
  shows
    "(\<not> hmac_alg alg \<longrightarrow>
        (\<exists>e. ValidateJWT L now tokenString secret = (uuid_Nil, Some e) \<and>
              AlgorithmMismatchError e)) \<and>
     (hmac_alg alg \<and> bad_signature L alg sstr sig secret \<longrightarrow>
        (\<exists>e. ValidateJWT L now tokenString secret = (uuid_Nil, Some e) \<and> SignatureError e)) \<and>
     (hmac_alg alg \<and> \<not> bad_signature L alg sstr sig secret \<and> expired c now \<longrightarrow>
        (\<exists>e. ValidateJWT L now tokenString secret = (uuid_Nil, Some e) \<and> ExpiredError e)) \<and>
     (hmac_alg alg \<and> \<not> bad_signature L alg sstr sig secret \<and> Validate c now = None \<and>
      malformed_subject c \<longrightarrow>
        (\<exists>e. ValidateJWT L now tokenString secret = (uuid_Nil, Some e) \<and>
              MalformedSubjectError e)) \<and>
     (\<forall>e. snd (ValidateJWT L now tokenString secret) = Some e \<longrightarrow>
        (SignatureError e \<longrightarrow> hmac_alg alg) \<and>
        (ExpiredError e \<longrightarrow> hmac_alg alg \<and> \<not> bad_signature L alg sstr sig secret) \<and>
        (MalformedSubjectError e \<longrightarrow>
           hmac_alg alg \<and> \<not> bad_signature L alg sstr sig secret \<and> \<not> expired c now))"
  unfolding ValidateJWT_decoded [OF assms(1)]
  using outcome_cases [OF assms(2), where L = L and sstr = sstr and sig = sig and secret = secret and c = c and now = now]
  by (elim disjE conjE exE) (simp_all add: MalformedSubjectError_def)

theorem rejection_precedence_witness:
  "(\<not> hmac_alg ''none'' \<and> expired bad_claims one_minute \<and> malformed_subject bad_claims \<and>
    (\<exists>e. ValidateJWT ref_lib one_minute none_token ''supersecretkey'' = (uuid_Nil, Some e) \<and>
          AlgorithmMismatchError e)) \<and>
   (hmac_alg ''HS256'' \<and>
    (\<exists>e. ValidateJWT ref_lib one_minute hs256_token ''wrongsecretkey'' = (uuid_Nil, Some e) \<and>
          SignatureError e)) \<and>
   (\<exists>e. ValidateJWT ref_lib one_minute hs256_token ''supersecretkey'' = (uuid_Nil, Some e) \<and>
         ExpiredError e) \<and>
   (\<exists>e. ValidateJWT ref_lib 0 hs256_token ''supersecretkey'' = (uuid_Nil, Some e) \<and>
         MalformedSubjectError e)"
proof -
  have n: "\<not> hmac_alg ''none''" and h: "hmac_alg ''HS256''"
    by (simp_all add: hmac_alg_def)
  have an: "map_of [(''typ'', JString ''JWT''), (''alg'', JString ''none'')] ''alg'' =
            Some (JString ''none'')"
    and ah: "map_of [(''typ'', JString ''JWT''), (''alg'', JString ''HS256'')] ''alg'' =
            Some (JString ''HS256'')"
    by simp_all
  note pn = rejection_precedence [OF none_token_decoded an, of one_minute "''supersecretkey''"]
  note pw = rejection_precedence [OF hs256_token_decoded ah, of one_minute "''wrongsecretkey''"]
  note ps = rejection_precedence [OF hs256_token_decoded ah, of one_minute "''supersecretkey''"]
  note p0 = rejection_precedence [OF hs256_token_decoded ah, of 0 "''supersecretkey''"]
  have 1: "\<exists>e. ValidateJWT ref_lib one_minute none_token ''supersecretkey'' = (uuid_Nil, Some e) \<and>
               AlgorithmMismatchError e"
    using pn n by blast
  have 2: "\<exists>e. ValidateJWT ref_lib one_minute hs256_token ''wrongsecretkey'' = (uuid_Nil, Some e) \<and>
               SignatureError e"
    using pw h hs256_token_signature(1) by blast
  have 3: "\<exists>e. ValidateJWT ref_lib one_minute hs256_token ''supersecretkey'' = (uuid_Nil, Some e) \<and>
               ExpiredError e"
    using ps h hs256_token_signature(2) bad_claims_facts(1) by blast
  have 4: "\<exists>e. ValidateJWT ref_lib 0 hs256_token ''supersecretkey'' = (uuid_Nil, Some e) \<and>
               MalformedSubjectError e"
    using p0 h hs256_token_signature(2) bad_claims_facts(2,3) by blast
  from n h bad_claims_facts(1,3) 1 2 3 4 show ?thesis
    by blast
qed

text \<open>
  C4. A token that carries an expiry claim is accepted only at an instant strictly
  before it; from the expiry instant on, validation fails, and with the expiry error
  when the algorithm and the signature are in order.  \<^verbatim>\<open>MakeJWT\<close> never returns an error,
  whatever the sign of the ttl, and a token issued with a zero or negative ttl fails with
  the expiry error at any later reading of the clock.
\<close>

theorem expiry_enforced:
  "(decoded L tokenString = Some (h, c, sig, sstr) \<and> ExpiresAt c = Some exp \<longrightarrow>
      (snd (ValidateJWT L now tokenString secret) = None \<longrightarrow> now < exp) \<and>
      (exp \<le> now \<longrightarrow> snd (ValidateJWT L now tokenString secret) \<noteq> None) \<and>
      (exp \<le> now \<and> map_of h ''alg'' = Some (JString alg) \<and> hmac_alg alg \<and>
       \<not> bad_signature L alg sstr sig secret \<longrightarrow>
         (\<exists>e. ValidateJWT L now tokenString secret = (uuid_Nil, Some e) \<and> ExpiredError e))) \<and>
   snd (MakeJWT L nowI nowE userID issuerSecret expiresIn) = None \<and>
   (expiresIn \<le> 0 \<and> nowE \<le> later \<and> length userID = 16 \<and>
    reads_back L (issued_token nowI nowE userID expiresIn)
      (hs256_tag L (issued_token nowI nowE userID expiresIn) issuerSecret) \<longrightarrow>
      (\<exists>e. ValidateJWT L later (fst (MakeJWT L nowI nowE userID issuerSecret expiresIn))
              issuerSecret = (uuid_Nil, Some e) \<and> ExpiredError e))"
proof (intro conjI impI)
  assume a: "decoded L tokenString = Some (h, c, sig, sstr) \<and> ExpiresAt c = Some exp"
  then have d: "decoded L tokenString = Some (h, c, sig, sstr)" and e: "ExpiresAt c = Some exp"
    by simp_all
  have x: "expired c now \<longleftrightarrow> exp \<le> now"
    by (simp add: expired_def e)
  have ok: "snd (ValidateJWT L now tokenString secret) = None \<Longrightarrow> now < exp"
  proof -
    assume s: "snd (ValidateJWT L now tokenString secret) = None"
    then have o: "snd (outcome L now secret h c sig sstr) = None"
      by (simp add: ValidateJWT_decoded [OF d])
    have "\<exists>a. map_of h ''alg'' = Some (JString a)"
    proof (cases "map_of h ''alg''")
      case None
      with o show ?thesis by (simp add: outcome_def)
    next
      case (Some v)
      with o show ?thesis by (cases v) (simp_all add: outcome_def)
    qed
    then obtain a where alg: "map_of h ''alg'' = Some (JString a)" ..
    from outcome_cases [OF alg, where L = L and sstr = sstr and sig = sig and secret = secret
                          and c = c and now = now] o
    have "\<not> expired c now"
      by (elim disjE conjE exE) simp_all
    then show "now < exp" by (simp add: x)
  qed
  show "snd (ValidateJWT L now tokenString secret) = None \<Longrightarrow> now < exp"
    by (rule ok)
  show "exp \<le> now \<Longrightarrow> snd (ValidateJWT L now tokenString secret) \<noteq> None"
    using ok by fastforce
  show "\<exists>e. ValidateJWT L now tokenString secret = (uuid_Nil, Some e) \<and> ExpiredError e"
    if b: "exp \<le> now \<and> map_of h ''alg'' = Some (JString alg) \<and> hmac_alg alg \<and>
           \<not> bad_signature L alg sstr sig secret"
  proof -
    from b have alg: "map_of h ''alg'' = Some (JString alg)" by simp
    from outcome_cases [OF alg, where L = L and sstr = sstr and sig = sig
                          and secret = secret and c = c and now = now] b x
    show ?thesis
      unfolding ValidateJWT_decoded [OF d]
      by (elim disjE conjE exE) simp_all
  qed
next
  show "snd (MakeJWT L nowI nowE userID issuerSecret expiresIn) = None"
    by (simp add: MakeJWT_signed)
next
  assume a: "expiresIn \<le> 0 \<and> nowE \<le> later \<and> length userID = 16 \<and>
    reads_back L (issued_token nowI nowE userID expiresIn)
      (hs256_tag L (issued_token nowI nowE userID expiresIn) issuerSecret)"
  have "NewNumericDate (nowE + expiresIn) \<le> nowE + expiresIn"
    by (rule NewNumericDate_le)
  with a have "\<not> later < NewNumericDate (nowE + expiresIn)"
    by simp
  with a show "\<exists>e. ValidateJWT L later (fst (MakeJWT L nowI nowE userID issuerSecret expiresIn))
              issuerSecret = (uuid_Nil, Some e) \<and> ExpiredError e"
    by (simp add: ValidateJWT_issued)
qed

theorem expiry_enforced_witness:
  "ValidateJWT ref_lib half_second issued_example ''supersecretkey'' = (U1, None) \<and>
   half_second < 60000000000 \<and>
   (\<exists>e. ValidateJWT ref_lib 60000000000 issued_example ''supersecretkey'' = (uuid_Nil, Some e) \<and>
         ExpiredError e) \<and>
   snd (MakeJWT ref_lib half_second half_second U1 ''supersecretkey'' (- one_minute)) = None \<and>
   (\<exists>e. ValidateJWT ref_lib half_second
           (fst (MakeJWT ref_lib half_second half_second U1 ''supersecretkey'' (- one_minute)))
           ''supersecretkey'' = (uuid_Nil, Some e) \<and> ExpiredError e)"
proof -
  let ?c = "\<lparr>Issuer = ''chirpy'', Subject = uuid_String U1, Audience = [],
             ExpiresAt = Some 60000000000, NotBefore = None, IssuedAt = Some 0, ID = []\<rparr>"
  have v: "ValidateJWT ref_lib half_second issued_example ''supersecretkey'' = (U1, None)"
    by (simp add: issued_example_def ValidateJWT_issued [OF ref_reads_back length_U1]
                  NewNumericDate_def TimePrecision_def half_second_def one_minute_def)
  have e: "ExpiresAt ?c = Some 60000000000"
    by simp
  have a: "map_of [(''typ'', JString ''JWT''), (''alg'', JString ''HS256'')] ''alg'' =
           Some (JString ''HS256'')"
    by simp
  have h: "hmac_alg ''HS256''"
    by (simp add: hmac_alg_def)
  have m: "- one_minute \<le> 0"
    by (simp add: one_minute_def)
  note early =
    expiry_enforced [where L = ref_lib and tokenString = issued_example and c = ?c
      and exp = 60000000000 and now = half_second and secret = "''supersecretkey''"
      and h = "[(''typ'', JString ''JWT''), (''alg'', JString ''HS256'')]"
      and sig = "hs256_tag ref_lib (issued_token half_second half_second U1 one_minute)
                   ''supersecretkey''"
      and sstr = "SigningString ref_lib (issued_token half_second half_second U1 one_minute)"]
  note late =
    expiry_enforced [where L = ref_lib and tokenString = issued_example and c = ?c
      and exp = 60000000000 and now = 60000000000 and secret = "''supersecretkey''"
      and alg = "''HS256''"
      and h = "[(''typ'', JString ''JWT''), (''alg'', JString ''HS256'')]"
      and sig = "hs256_tag ref_lib (issued_token half_second half_second U1 one_minute)
                   ''supersecretkey''"
      and sstr = "SigningString ref_lib (issued_token half_second half_second U1 one_minute)"]
  note negative =
    expiry_enforced [where L = ref_lib and nowI = half_second and nowE = half_second
      and userID = U1 and issuerSecret = "''supersecretkey''" and expiresIn = "- one_minute"
      and later = half_second]
  have 1: "half_second < 60000000000"
    using early issued_example_decoded e v by simp
  have 2: "\<exists>e. ValidateJWT ref_lib 60000000000 issued_example ''supersecretkey'' =
               (uuid_Nil, Some e) \<and> ExpiredError e"
    using late issued_example_decoded e a h issued_example_signature by simp
  have 3: "snd (MakeJWT ref_lib half_second half_second U1 ''supersecretkey'' (- one_minute)) = None"
    using negative by blast
  have 4: "\<exists>e. ValidateJWT ref_lib half_second
           (fst (MakeJWT ref_lib half_second half_second U1 ''supersecretkey'' (- one_minute)))
           ''supersecretkey'' = (uuid_Nil, Some e) \<and> ExpiredError e"
    using negative m length_U1 ref_reads_back by simp
  from v 1 2 3 4 show ?thesis
    by blast
qed

text \<open>
  C7. If \<^verbatim>\<open>HashPassword\<close> succeeds on a secret, \<^verbatim>\<open>CheckPasswordHash\<close> accepts the hash it
  produced for that secret.  The only fact used about bcrypt's base64 codec is that the
  16-byte salt encodes to 22 bytes.
\<close>

theorem Verify_Hash:
  assumes "HashPassword B rnd password = (h, None)"
    and "length (bc_base64Encode B (take 16 rnd)) = 22"
  shows "CheckPasswordHash B h password = None"
proof -
  let ?s = "bc_base64Encode B (take 16 rnd)"
  from assms(1) obtain x where
    b: "bcrypt B password 10 ?s = Inr x" and
    h: "h = Hash \<lparr>hash = x, salt = ?s, cost = 10, major = CHR ''2'', minor = CHR ''a''\<rparr>"
    by (auto simp: HashPassword_eq split: if_splits sum.splits)
  show ?thesis
    unfolding h by (rule CheckPasswordHash_default [OF assms(2) b])
qed

theorem Verify_Hash_witness:
  "HashPassword ref_bcrypt salt1 ''hunter2'' =
     (fst (HashPassword ref_bcrypt salt1 ''hunter2''), None) \<and>
   length (bc_base64Encode ref_bcrypt (take 16 salt1)) = 22 \<and>
   CheckPasswordHash ref_bcrypt (fst (HashPassword ref_bcrypt salt1 ''hunter2'')) ''hunter2'' = None"
proof -
  have c: "salt_codec_ok ref_bcrypt (take 16 salt1)"
    by (rule ref_salt_codec) (simp add: salt1_def)
  then have l: "length (bc_base64Encode ref_bcrypt (take 16 salt1)) = 22"
    by (simp add: salt_codec_ok_def encodedSaltSize_def)
  have "snd (HashPassword ref_bcrypt salt1 ''hunter2'') = None"
    using c
    by (simp add: HashPassword_eq salt_codec_ok_def salt1_def
                  bcrypt_decodable [where csalt = "''0123456789abcdef''"])
  then have e: "HashPassword ref_bcrypt salt1 ''hunter2'' =
                (fst (HashPassword ref_bcrypt salt1 ''hunter2''), None)"
    by (simp add: prod_eq_iff)
  from e l Verify_Hash [OF e l] show ?thesis
    by blast
qed

text \<open>
  C8. When \<^verbatim>\<open>HashPassword\<close> fails.  As the claim states it (never because of the
  input's length) this fails: \<^verbatim>\<open>bcrypt.GenerateFromPassword\<close> rejects an input of more
  than 72 bytes with \<^verbatim>\<open>ErrPasswordTooLong\<close>.  The amended claim: \<^verbatim>\<open>HashPassword\<close> fails
  exactly when the input is longer than 72 bytes or the entropy source delivers fewer
  than the 16 bytes of salt; on every input of at most 72 bytes, the empty string
  included, it fails only with the entropy source.
\<close>

theorem HashPassword_fails_iff:
  assumes "bc_base64Decode B (bc_base64Encode B (take 16 rnd)) = Some (take 16 rnd)"
  shows "(snd (HashPassword B rnd password) \<noteq> None \<longleftrightarrow>
            72 < length password \<or> length rnd < 16) \<and>
         (72 < length password \<longrightarrow>
            HashPassword B rnd password = ([], Some bcrypt_ErrPasswordTooLong))"
proof -
  have "bcrypt B password 10 (bc_base64Encode B (take 16 rnd)) =
        Inr (bc_base64Encode B
               (take 23 (blowfish_crypt B (password @ [CHR 0x00]) (nat 10) (take 16 rnd))))"
    if "16 \<le> length rnd"
    by (rule bcrypt_decodable [OF assms]) (use that in auto)
  then show ?thesis
    by (auto simp: HashPassword_eq)
qed

theorem HashPassword_fails_iff_witness:
  "bc_base64Decode ref_bcrypt (bc_base64Encode ref_bcrypt (take 16 salt1)) = Some (take 16 salt1) \<and>
   bc_base64Decode ref_bcrypt (bc_base64Encode ref_bcrypt (take 16 ''short'')) =
     Some (take 16 ''short'') \<and>
   snd (HashPassword ref_bcrypt salt1 (replicate 72 (CHR ''a''))) = None \<and>
   snd (HashPassword ref_bcrypt salt1 []) = None \<and>
   snd (HashPassword ref_bcrypt ''short'' ''hunter2'') \<noteq> None \<and>
   HashPassword ref_bcrypt salt1 (replicate 73 (CHR ''a'')) = ([], Some bcrypt_ErrPasswordTooLong)"
proof -
  note c = ref_salt_decodes [of "take 16 salt1"]
  note c' = ref_salt_decodes [of "take 16 ''short''"]
  note a = HashPassword_fails_iff [OF c, of "replicate 72 (CHR ''a'')"]
  note e = HashPassword_fails_iff [OF c, of "[]"]
  note l = HashPassword_fails_iff [OF c, of "replicate 73 (CHR ''a'')"]
  note b = HashPassword_fails_iff [OF c', of "''hunter2''"]
  have 1: "snd (HashPassword ref_bcrypt salt1 (replicate 72 (CHR ''a''))) = None"
    using a by (simp add: salt1_def)
  have 2: "snd (HashPassword ref_bcrypt salt1 []) = None"
    using e by (simp add: salt1_def)
  have 3: "snd (HashPassword ref_bcrypt ''short'' ''hunter2'') \<noteq> None"
    using b by simp
  have 4: "HashPassword ref_bcrypt salt1 (replicate 73 (CHR ''a'')) =
           ([], Some bcrypt_ErrPasswordTooLong)"
    using l by simp
  from c c' 1 2 3 4 show ?thesis by blast
qed

theorem HashPassword_long_input_counterexample:
  "length salt1 = 16 \<and>
   HashPassword ref_bcrypt salt1 (replicate 73 (CHR ''a'')) =
     ([], Some bcrypt_ErrPasswordTooLong)"
  by (simp add: HashPassword_eq salt1_def)

text \<open>
  C9. Two calls of \<^verbatim>\<open>HashPassword\<close> on the same secret that draw different salts return
  different hash strings, and each of them verifies against the secret.  As the claim
  states it (for every secret) this fails: on a secret of more than 72 bytes both calls
  fail, return the same empty string, and nothing verifies.  The amended claim is for
  secrets of at most 72 bytes; "fresh salts" are two readings of the entropy source
  that differ in their first 16 bytes.
\<close>

theorem fresh_salts_distinct_hashes:
  assumes "length password \<le> 72"
    and "16 \<le> length rndA" and "16 \<le> length rndB"
    and "take 16 rndA \<noteq> take 16 rndB"
    and "salt_codec_ok B (take 16 rndA)" and "salt_codec_ok B (take 16 rndB)"
  shows "snd (HashPassword B rndA password) = None \<and>
         snd (HashPassword B rndB password) = None \<and>
         fst (HashPassword B rndA password) \<noteq> fst (HashPassword B rndB password) \<and>
         CheckPasswordHash B (fst (HashPassword B rndA password)) password = None \<and>
         CheckPasswordHash B (fst (HashPassword B rndB password)) password = None"
proof -
  let ?sA = "bc_base64Encode B (take 16 rndA)" and ?sB = "bc_base64Encode B (take 16 rndB)"
  have lA: "length ?sA = 22" and dA: "bc_base64Decode B ?sA = Some (take 16 rndA)"
    using assms(5) by (simp_all add: salt_codec_ok_def encodedSaltSize_def)
  have lB: "length ?sB = 22" and dB: "bc_base64Decode B ?sB = Some (take 16 rndB)"
    using assms(6) by (simp_all add: salt_codec_ok_def encodedSaltSize_def)
  have ne: "?sA \<noteq> ?sB"
    using dA dB assms(4) by auto
  have nA: "take 16 rndA \<noteq> []" and nB: "take 16 rndB \<noteq> []"
    using assms(2,3) by auto
  obtain hA where bA: "bcrypt B password 10 ?sA = Inr hA"
    using bcrypt_decodable [OF dA nA] by blast
  obtain hB where bB: "bcrypt B password 10 ?sB = Inr hB"
    using bcrypt_decodable [OF dB nB] by blast
  have HA: "HashPassword B rndA password =
            (Hash \<lparr>hash = hA, salt = ?sA, cost = 10, major = CHR ''2'', minor = CHR ''a''\<rparr>, None)"
    using assms(1,2) by (simp add: HashPassword_eq bA)
  have HB: "HashPassword B rndB password =
            (Hash \<lparr>hash = hB, salt = ?sB, cost = 10, major = CHR ''2'', minor = CHR ''a''\<rparr>, None)"
    using assms(1,3) by (simp add: HashPassword_eq bB)
  have diff: "Hash \<lparr>hash = hA, salt = ?sA, cost = 10, major = CHR ''2'', minor = CHR ''a''\<rparr> \<noteq>
              Hash \<lparr>hash = hB, salt = ?sB, cost = 10, major = CHR ''2'', minor = CHR ''a''\<rparr>"
    unfolding Hash_default [OF lA] Hash_default [OF lB]
    using ne lA lB by (simp del: take_append)
  show ?thesis
    unfolding HA HB
    using diff CheckPasswordHash_default [OF lA bA] CheckPasswordHash_default [OF lB bB]
    by simp
qed

theorem fresh_salts_distinct_hashes_witness:
  "length ''hunter2'' \<le> 72 \<and> take 16 salt1 \<noteq> take 16 salt2 \<and>
   salt_codec_ok ref_bcrypt (take 16 salt1) \<and> salt_codec_ok ref_bcrypt (take 16 salt2) \<and>
   fst (HashPassword ref_bcrypt salt1 ''hunter2'') \<noteq> fst (HashPassword ref_bcrypt salt2 ''hunter2'') \<and>
   CheckPasswordHash ref_bcrypt (fst (HashPassword ref_bcrypt salt1 ''hunter2'')) ''hunter2'' = None \<and>
   CheckPasswordHash ref_bcrypt (fst (HashPassword ref_bcrypt salt2 ''hunter2'')) ''hunter2'' = None"
proof -
  have p: "length ''hunter2'' \<le> 72"
    by simp
  have l1: "16 \<le> length salt1" and l2: "16 \<le> length salt2"
    and ne: "take 16 salt1 \<noteq> take 16 salt2"
    by (simp_all add: salt1_def salt2_def)
  have c1: "salt_codec_ok ref_bcrypt (take 16 salt1)"
    and c2: "salt_codec_ok ref_bcrypt (take 16 salt2)"
    by (rule ref_salt_codec, simp add: salt1_def, rule ref_salt_codec, simp add: salt2_def)
  from p ne c1 c2 fresh_salts_distinct_hashes [OF p l1 l2 ne c1 c2] show ?thesis
    by blast
qed

theorem long_secret_hashes_counterexample:
  "take 16 salt1 \<noteq> take 16 salt2 \<and>
   fst (HashPassword ref_bcrypt salt1 (replicate 73 (CHR ''a''))) =
   fst (HashPassword ref_bcrypt salt2 (replicate 73 (CHR ''a''))) \<and>
   CheckPasswordHash ref_bcrypt (fst (HashPassword ref_bcrypt salt1 (replicate 73 (CHR ''a''))))
     (replicate 73 (CHR ''a'')) = Some bcrypt_ErrHashTooShort"
  by (simp add: HashPassword_eq salt1_def salt2_def CheckPasswordHash_def
                CompareHashAndPassword_def newFromHash_def minHashSize_def)

end
